theory Spec2Isabelle
  imports Main
begin

section \<open>Data model\<close>

text \<open>
  The repository holds two variants of the same Express server. Definitions with the
  suffix \<open>_P\<close> embed the standalone server (\<^verbatim>\<open>src/unnamed/part_000\<close>, lines 1-483,
  with the table it creates itself in \<^verbatim>\<open>initializeDatabase\<close>); definitions with the
  suffix \<open>_S\<close> embed \<^verbatim>\<open>src/Backend/server.js\<close>, which runs against the table of
  \<^verbatim>\<open>init.sql\<close> (\<^verbatim>\<open>src/unnamed/part_000\<close>, lines 484-561).

  Every handler is a function from the request and the state (the table and the
  upload directory) to the response and the new state. What lies outside the
  repository enters as an input: the clock and the random numbers behind generated
  names, the integer the path parameter denotes, the files that passed multer's
  filter. A string is the UTF-8 encoding of the JavaScript string. The database
  raises only what is modelled here (a uniqueness violation, an integer out of range,
  a malformed integer); values are taken to fit their columns.
\<close>

text \<open>A scalar of a row or of a JSON body, and a JSON body member.\<close>

datatype jv = Null | Num int | Str string

datatype json = JBool bool | JNum int | JStr string | JStrs "string list" | JRow "(string \<times> jv) list"

text \<open>\<^verbatim>\<open>res.status(c).json({...})\<close>: the status code and the members of the body in order.\<close>

type_synonym response = "nat \<times> (string \<times> json) list"

text \<open>One row of \<^verbatim>\<open>job_applications\<close>. The profile columns are kept by name.\<close>

record application =
  app_id :: int
  reference_id :: string
  full_name :: string
  email :: string
  mobile_number :: string
  department :: string
  job_role :: string
  status :: string
  ssc_doc_path :: "string option"
  intermediate_doc_path :: "string option"
  graduation_doc_path :: "string option"
  additional_files_path :: "string option"
  offer_letter_path :: "string option"
  profile :: "(string \<times> jv) list"

text \<open>The statements the handlers send.\<close>

datatype query =
    Insert_application
  | Select_by_id
  | Update_status
  | Update_offer_letter
  | Select_offer_letter

text \<open>
  The table, the next value of the \<^verbatim>\<open>id\<close> sequence, and the statements sent so far,
  in the order sent.
\<close>

record database =
  rows :: "application list"
  next_id :: int
  qlog :: "query list"

datatype pg_error = Unique_violation string | Out_of_range | Invalid_text

text \<open>
  What a \<^verbatim>\<open>try\<close> block can throw: a database error, \<^verbatim>\<open>ENOENT\<close> from \<^verbatim>\<open>fs.unlinkSync\<close>, or
  the \<^verbatim>\<open>TypeError\<close> of reading a property of \<^verbatim>\<open>undefined\<close>.
\<close>

datatype exn = Pg pg_error | ENOENT | TypeError

text \<open>The upload directory: file name to contents.\<close>

type_synonym store = "string \<rightharpoonup> string"

text \<open>
  A file accepted by multer. Its stored name is built by the \<^verbatim>\<open>filename\<close> callback of
  \<^verbatim>\<open>multer.diskStorage\<close>: the name of the form field it came in, \<^verbatim>\<open>uniqueSuffix\<close>
  (clock and random number, an input here) and the extension of the original name.
\<close>

record ufile =
  uniqueSuffix :: string
  extname :: string
  contents :: string

definition stored_name :: "string \<Rightarrow> ufile \<Rightarrow> string" where
  "stored_name fieldname f = fieldname @ ''-'' @ uniqueSuffix f @ extname f"

text \<open>
  \<^verbatim>\<open>req.body\<close> and \<^verbatim>\<open>req.files\<close>, by field name. The body is filled by multer for a
  multipart request and by \<^verbatim>\<open>express.json\<close> or \<^verbatim>\<open>express.urlencoded\<close> otherwise, and is
  an object for every request that reaches a handler. multer
  sets \<^verbatim>\<open>req.files\<close> only for a multipart request; for any other request it stays
  \<^verbatim>\<open>undefined\<close>, which the handlers receive as \<open>None\<close>.
\<close>

type_synonym form = "string \<rightharpoonup> string"

type_synonym uploads = "string \<rightharpoonup> ufile"

section \<open>JavaScript and file-system helpers\<close>

text \<open>\<^verbatim>\<open>!v\<close> for a form value: absent or the empty string.\<close>

definition falsy :: "string option \<Rightarrow> bool" where
  "falsy v = (case v of None \<Rightarrow> True | Some s \<Rightarrow> s = [])"

text \<open>\<^verbatim>\<open>v || null\<close>\<close>

definition or_null :: "string option \<Rightarrow> jv" where
  "or_null v = (case v of None \<Rightarrow> Null | Some s \<Rightarrow> if s = [] then Null else Str s)"

definition or_none :: "string option \<Rightarrow> string option" where
  "or_none v = (case v of None \<Rightarrow> None | Some s \<Rightarrow> if s = [] then None else Some s)"

definition of_opt :: "string option \<Rightarrow> jv" where
  "of_opt v = (case v of None \<Rightarrow> Null | Some s \<Rightarrow> Str s)"

definition write_upload :: "string \<Rightarrow> ufile \<Rightarrow> store \<Rightarrow> store" where
  "write_upload fieldname f st = st(stored_name fieldname f \<mapsto> contents f)"

text \<open>
  The multer middleware of a route, for the files it accepted: each is on disk, under
  its stored name, before the handler runs.
\<close>

definition stage :: "string list \<Rightarrow> uploads \<Rightarrow> store \<Rightarrow> store" where
  "stage names files st =
     fold (\<lambda>name acc. case files name of None \<Rightarrow> acc | Some f \<Rightarrow> write_upload name f acc) names st"

text \<open>The same for a request: one that is not multipart writes nothing.\<close>

definition stage_request :: "string list \<Rightarrow> uploads option \<Rightarrow> store \<Rightarrow> store" where
  "stage_request names files st = (case files of None \<Rightarrow> st | Some fs \<Rightarrow> stage names fs st)"

definition existsSync :: "string \<Rightarrow> store \<Rightarrow> bool" where
  "existsSync p st = (case st p of None \<Rightarrow> False | Some _ \<Rightarrow> True)"

definition unlinkSync :: "string \<Rightarrow> store \<Rightarrow> exn + store" where
  "unlinkSync p st = (if existsSync p st then Inr (st(p := None)) else Inl ENOENT)"

section \<open>The repository\<close>

definition log_query :: "query \<Rightarrow> database \<Rightarrow> database" where
  "log_query q db = db\<lparr>qlog := qlog db @ [q]\<rparr>"

text \<open>The \<^verbatim>\<open>id\<close> column is \<^verbatim>\<open>SERIAL\<close>: a 32-bit integer.\<close>

definition in_int4 :: "int \<Rightarrow> bool" where
  "in_int4 i = (- 2147483648 \<le> i \<and> i \<le> 2147483647)"

text \<open>\<^verbatim>\<open>UPDATE job_applications SET status = $1 WHERE id = $2 RETURNING ...\<close>\<close>

definition update_status :: "string \<Rightarrow> int \<Rightarrow> database \<Rightarrow> (pg_error + application list) \<times> database" where
  "update_status s i db =
     (if in_int4 i
      then (Inr (map (\<lambda>r. r\<lparr>status := s\<rparr>) (filter (\<lambda>r. app_id r = i) (rows db))),
            log_query Update_status
              (db\<lparr>rows := map (\<lambda>r. if app_id r = i then r\<lparr>status := s\<rparr> else r) (rows db)\<rparr>))
      else (Inl Out_of_range, log_query Update_status db))"

section \<open>Status update: PUT /api/applications/:id\<close>

definition status_values :: "string list" where
  "status_values = [''Pending'', ''Approved'', ''Rejected'']"

text \<open>\<^verbatim>\<open>['Pending', 'Approved', 'Rejected'].includes(status)\<close> for a string.\<close>

definition includes_status :: "string \<Rightarrow> bool" where
  "includes_status v = (v \<in> set status_values)"

text \<open>
  The standalone server (part_000, lines 306-333). \<open>ident\<close> is
  \<^verbatim>\<open>parseInt(req.params.id)\<close>, \<open>None\<close> for \<^verbatim>\<open>NaN\<close>. The body member \<open>s\<close> is any JSON
  value; \<open>None\<close> stands for an absent member or one that is not a string, which
  \<^verbatim>\<open>includes\<close> never finds.
\<close>

definition invalid_status_P :: response where
  "invalid_status_P = (400, [(''success'', JBool False), (''message'', JStr ''Invalid status'')])"

definition put_status_P :: "int option \<Rightarrow> string option \<Rightarrow> database \<Rightarrow> response \<times> database" where
  "put_status_P ident s db =
     (case ident of
        None \<Rightarrow> ((400, [(''success'', JBool False), (''message'', JStr ''Invalid application ID'')]), db)
      | Some i \<Rightarrow>
          (case s of
             None \<Rightarrow> (invalid_status_P, db)
           | Some v \<Rightarrow>
               if includes_status v
               then
                 (case update_status v i db of
                    (Inl e, db') \<Rightarrow>
                      ((500, [(''success'', JBool False), (''message'', JStr ''Failed to update status'')]), db')
                  | (Inr [], db') \<Rightarrow>
                      ((404, [(''success'', JBool False), (''message'', JStr ''Application not found'')]), db')
                  | (Inr (r # _), db') \<Rightarrow>
                      ((200, [(''success'', JBool True),
                              (''data'', JRow [(''id'', Num (app_id r)), (''status'', Str (status r))])]), db'))
               else (invalid_status_P, db)))"

text \<open>
  \<^verbatim>\<open>RETURNING *\<close> of Backend/server.js: the columns of \<^verbatim>\<open>init.sql\<close> (the two
  timestamps are not modelled).
\<close>

definition all_columns :: "application \<Rightarrow> (string \<times> jv) list" where
  "all_columns r =
     [(''id'', Num (app_id r)), (''reference_id'', Str (reference_id r)),
      (''full_name'', Str (full_name r)), (''email'', Str (email r)),
      (''mobile_number'', Str (mobile_number r)), (''department'', Str (department r)),
      (''job_role'', Str (job_role r))] @ profile r @
     [(''ssc_doc_path'', of_opt (ssc_doc_path r)),
      (''intermediate_doc_path'', of_opt (intermediate_doc_path r)),
      (''graduation_doc_path'', of_opt (graduation_doc_path r)),
      (''additional_files_path'', of_opt (additional_files_path r)),
      (''offer_letter_path'', of_opt (offer_letter_path r)),
      (''status'', Str (status r))]"

text \<open>
  Backend/server.js, lines 265-301. The path parameter goes to the database as text:
  \<open>ident\<close> is the integer it denotes, \<open>None\<close> when it denotes none, and then the
  statement raises.
\<close>

definition invalid_status_S :: response where
  "invalid_status_S = (400, [(''success'', JBool False), (''error'', JStr ''Invalid status value'')])"

definition update_status_S :: "string \<Rightarrow> int option \<Rightarrow> database \<Rightarrow> (pg_error + application list) \<times> database" where
  "update_status_S s ident db =
     (case ident of
        None \<Rightarrow> (Inl Invalid_text, log_query Update_status db)
      | Some i \<Rightarrow> update_status s i db)"

definition put_status_S :: "int option \<Rightarrow> string option \<Rightarrow> database \<Rightarrow> response \<times> database" where
  "put_status_S ident s db =
     (case s of
        None \<Rightarrow> (invalid_status_S, db)
      | Some v \<Rightarrow>
          if includes_status v
          then
            (case update_status_S v ident db of
               (Inl e, db') \<Rightarrow>
                 ((500, [(''success'', JBool False), (''error'', JStr ''Failed to update status'')]), db')
             | (Inr [], db') \<Rightarrow>
                 ((404, [(''success'', JBool False), (''error'', JStr ''Application not found'')]), db')
             | (Inr (r # _), db') \<Rightarrow>
                 ((200, [(''success'', JBool True), (''message'', JStr ''Status updated successfully''),
                         (''data'', JRow (all_columns r))]), db'))
          else (invalid_status_S, db))"

section \<open>Submission: POST /api/applications\<close>

subsection \<open>\<^verbatim>\<open>parseInt\<close>\<close>

text \<open>
  The white space \<^verbatim>\<open>parseInt\<close> skips (ECMAScript's \<^verbatim>\<open>StrWhiteSpaceChar\<close>), each character in
  UTF-8: tab, line feed, vertical tab, form feed, carriage return, space, U+00A0,
  U+1680, U+2000 to U+200A, U+2028, U+2029, U+202F, U+205F, U+3000 and U+FEFF.
\<close>

definition white_space :: "string list" where
  "white_space =
     [[CHR 0x09], [CHR 0x0A], [CHR 0x0B], [CHR 0x0C], [CHR 0x0D], [CHR 0x20],
      [CHR 0xC2, CHR 0xA0],
      [CHR 0xE1, CHR 0x9A, CHR 0x80],
      [CHR 0xE2, CHR 0x80, CHR 0x80], [CHR 0xE2, CHR 0x80, CHR 0x81], [CHR 0xE2, CHR 0x80, CHR 0x82],
      [CHR 0xE2, CHR 0x80, CHR 0x83], [CHR 0xE2, CHR 0x80, CHR 0x84], [CHR 0xE2, CHR 0x80, CHR 0x85],
      [CHR 0xE2, CHR 0x80, CHR 0x86], [CHR 0xE2, CHR 0x80, CHR 0x87], [CHR 0xE2, CHR 0x80, CHR 0x88],
      [CHR 0xE2, CHR 0x80, CHR 0x89], [CHR 0xE2, CHR 0x80, CHR 0x8A],
      [CHR 0xE2, CHR 0x80, CHR 0xA8], [CHR 0xE2, CHR 0x80, CHR 0xA9], [CHR 0xE2, CHR 0x80, CHR 0xAF],
      [CHR 0xE2, CHR 0x81, CHR 0x9F],
      [CHR 0xE3, CHR 0x80, CHR 0x80],
      [CHR 0xEF, CHR 0xBB, CHR 0xBF]]"

function skip_white_space :: "string \<Rightarrow> string" where
  "skip_white_space s =
     (case find (\<lambda>w. take (length w) s = w) white_space of
        None \<Rightarrow> s
      | Some w \<Rightarrow> skip_white_space (drop (length w) s))"
  by pat_completeness auto

termination
proof (relation "measure length")
  show "wf (measure length)" by simp
next
  fix s :: string and w
  assume "find (\<lambda>w. take (length w) s = w) white_space = Some w"
  then have mem: "w \<in> set white_space" and pre: "take (length w) s = w"
    by (auto simp: find_Some_iff)
  have "w \<noteq> []" using mem by (auto simp: white_space_def)
  moreover have "length w \<le> length s"
  proof -
    have "length (take (length w) s) = length w" using pre by simp
    then show ?thesis by simp
  qed
  ultimately show "(drop (length w) s, s) \<in> measure length" by (cases w) auto
qed

declare skip_white_space.simps [simp del]

text \<open>
  \<^verbatim>\<open>parseInt(s)\<close> with no radix: leading white space, an optional sign, then the longest
  run of digits (hexadecimal after \<^verbatim>\<open>0x\<close>); \<open>None\<close> is \<^verbatim>\<open>NaN\<close>. The value is kept as an
  exact integer.
\<close>

definition digit_value :: "char \<Rightarrow> nat" where
  "digit_value c =
     (let n = (of_char c :: nat) in
      if 48 \<le> n \<and> n \<le> 57 then n - 48
      else if 97 \<le> n \<and> n \<le> 102 then n - 87
      else if 65 \<le> n \<and> n \<le> 70 then n - 55
      else 16)"

definition parseInt :: "string \<Rightarrow> int option" where
  "parseInt s =
     (let t = skip_white_space s;
          negative = (take 1 t = ''-'');
          u = (if take 1 t = ''-'' \<or> take 1 t = ''+'' then drop 1 t else t);
          hex = (take 2 u = ''0x'' \<or> take 2 u = ''0X'');
          radix = (if hex then 16 else 10);
          ds = takeWhile (\<lambda>c. digit_value c < radix) (if hex then drop 2 u else u);
          n = foldl (\<lambda>a c. a * int radix + int (digit_value c)) 0 ds
      in if ds = [] then None else Some (if negative then - n else n))"

text \<open>\<^verbatim>\<open>parseInt(v) || null\<close>: \<^verbatim>\<open>NaN\<close> and 0 are falsy.\<close>

definition int_or_null :: "string option \<Rightarrow> jv" where
  "int_or_null v =
     (case v of
        None \<Rightarrow> Null
      | Some s \<Rightarrow> (case parseInt s of None \<Rightarrow> Null | Some n \<Rightarrow> if n = 0 then Null else Num n))"

subsection \<open>Reference ids\<close>

text \<open>
  \<^verbatim>\<open>generateReferenceId\<close> (part_000, lines 466-469): 15 characters, each picked by
  \<^verbatim>\<open>Math.floor(Math.random() * chars.length)\<close>. \<open>rnd k\<close> is the k-th pick; it is
  reduced modulo the 36 characters, the range of the source's expression.
\<close>

definition chars :: string where
  "chars = ''ABCDEFGHIJKLMNOPQRSTUVWXYZ0123456789''"

definition generateReferenceId :: "(nat \<Rightarrow> nat) \<Rightarrow> string" where
  "generateReferenceId rnd = map (\<lambda>k. chars ! (rnd k mod length chars)) [0..<15]"

text \<open>
  Backend/server.js, line 168: \<^verbatim>\<open>REF\<close>, then \<^verbatim>\<open>Date.now()\<close> and
  \<^verbatim>\<open>Math.floor(Math.random() * 1000)\<close>, both given here by their decimal digits.
\<close>

definition reference_id_S :: "string \<Rightarrow> string \<Rightarrow> string" where
  "reference_id_S now r = ''REF'' @ now @ r"

subsection \<open>Insert\<close>

text \<open>A value the handler has checked to be present.\<close>

definition text_of :: "string option \<Rightarrow> string" where
  "text_of v = (case v of None \<Rightarrow> [] | Some s \<Rightarrow> s)"

text \<open>
  The insert of the standalone server into the table of \<^verbatim>\<open>initializeDatabase\<close>:
  \<^verbatim>\<open>reference_id\<close>, \<^verbatim>\<open>email\<close> and \<^verbatim>\<open>mobile_number\<close> are \<^verbatim>\<open>UNIQUE\<close>, \<^verbatim>\<open>status\<close> defaults
  to \<^verbatim>\<open>'Pending'\<close>, \<^verbatim>\<open>offer_letter_path\<close> to null. The constraints are tried in the
  order of their columns in the table. The sequence advances whether or not the row
  is accepted. The row \<open>v\<close> comes with \<open>app_id\<close> 0; the insert assigns the id.
\<close>

definition insert_P :: "application \<Rightarrow> database \<Rightarrow> (pg_error + application) \<times> database" where
  "insert_P v db =
     (let db1 = log_query Insert_application (db\<lparr>next_id := next_id db + 1\<rparr>);
          r = v\<lparr>app_id := next_id db, status := ''Pending'', offer_letter_path := None\<rparr>
      in if reference_id v \<in> set (map reference_id (rows db))
         then (Inl (Unique_violation ''job_applications_reference_id_key''), db1)
         else if email v \<in> set (map email (rows db))
         then (Inl (Unique_violation ''job_applications_email_key''), db1)
         else if mobile_number v \<in> set (map mobile_number (rows db))
         then (Inl (Unique_violation ''job_applications_mobile_number_key''), db1)
         else (Inr r, db1\<lparr>rows := rows db @ [r]\<rparr>))"

text \<open>
  The insert of Backend/server.js into the table of \<^verbatim>\<open>init.sql\<close>: only \<^verbatim>\<open>reference_id\<close>
  is \<^verbatim>\<open>UNIQUE\<close>; the statement sets \<^verbatim>\<open>status\<close> to \<^verbatim>\<open>'Pending'\<close>.
\<close>

definition insert_S :: "application \<Rightarrow> database \<Rightarrow> (pg_error + application) \<times> database" where
  "insert_S v db =
     (let db1 = log_query Insert_application (db\<lparr>next_id := next_id db + 1\<rparr>);
          r = v\<lparr>app_id := next_id db, status := ''Pending'', offer_letter_path := None\<rparr>
      in if reference_id v \<in> set (map reference_id (rows db))
         then (Inl (Unique_violation ''job_applications_reference_id_key''), db1)
         else (Inr r, db1\<lparr>rows := rows db @ [r]\<rparr>))"

subsection \<open>The standalone server (part_000, lines 164-266)\<close>

definition requiredFields_P :: "string list" where
  "requiredFields_P =
     [''full_name'', ''email'', ''mobile_number'', ''department'', ''job_role'',
      ''dob'', ''father_name'', ''permanent_address'', ''expected_salary'',
      ''employment_type'', ''branch_location'', ''ssc_year'', ''ssc_percentage'',
      ''intermediate_year'', ''intermediate_percentage'', ''college_name'',
      ''register_number'', ''graduation_year'', ''graduation_percentage'',
      ''experience_status'']"

definition upload_fields_P :: "string list" where
  "upload_fields_P = [''sscDoc'', ''intermediateDoc'', ''graduationDoc'', ''additional_files'', ''offerLetter'']"

text \<open>\<^verbatim>\<open>files.f?.[0]?.filename || null\<close>\<close>

definition filename_or_null :: "uploads \<Rightarrow> string \<Rightarrow> string option" where
  "filename_or_null files name =
     (case files name of None \<Rightarrow> None | Some f \<Rightarrow> or_none (Some (stored_name name f)))"

definition values_P :: "string \<Rightarrow> form \<Rightarrow> uploads \<Rightarrow> application" where
  "values_P referenceId formData files =
     \<lparr>app_id = 0,
      reference_id = referenceId,
      full_name = text_of (formData ''full_name''),
      email = text_of (formData ''email''),
      mobile_number = text_of (formData ''mobile_number''),
      department = text_of (formData ''department''),
      job_role = text_of (formData ''job_role''),
      status = ''Pending'',
      ssc_doc_path = filename_or_null files ''sscDoc'',
      intermediate_doc_path = filename_or_null files ''intermediateDoc'',
      graduation_doc_path = filename_or_null files ''graduationDoc'',
      additional_files_path = filename_or_null files ''additional_files'',
      offer_letter_path = None,
      profile =
        [(''dob'', or_null (formData ''dob'')),
         (''father_name'', or_null (formData ''father_name'')),
         (''permanent_address'', or_null (formData ''permanent_address'')),
         (''expected_salary'', int_or_null (formData ''expected_salary'')),
         (''interview_date'', or_null (formData ''interview_date'')),
         (''joining_date'', or_null (formData ''joining_date'')),
         (''employment_type'', or_null (formData ''employment_type'')),
         (''branch_location'', or_null (formData ''branch_location'')),
         (''ssc_year'', int_or_null (formData ''ssc_year'')),
         (''ssc_percentage'', or_null (formData ''ssc_percentage'')),
         (''intermediate_year'', int_or_null (formData ''intermediate_year'')),
         (''intermediate_percentage'', or_null (formData ''intermediate_percentage'')),
         (''college_name'', or_null (formData ''college_name'')),
         (''register_number'', or_null (formData ''register_number'')),
         (''graduation_year'', int_or_null (formData ''graduation_year'')),
         (''graduation_percentage'', or_null (formData ''graduation_percentage'')),
         (''additional_certifications'', or_null (formData ''additional_certifications'')),
         (''experience_status'', or_null (formData ''experience_status'')),
         (''years_of_experience'', int_or_null (formData ''years_of_experience'')),
         (''previous_company'', or_null (formData ''previous_company'')),
         (''previous_job_role'', or_null (formData ''previous_job_role''))]\<rparr>"

text \<open>
  The message of the \<^verbatim>\<open>catch\<close> block. No modelled error carries a message that
  includes \<^verbatim>\<open>'Only PDF'\<close>.
\<close>

definition submit_error_message :: "exn \<Rightarrow> string" where
  "submit_error_message e =
     (if e = Pg (Unique_violation ''job_applications_email_key'') then ''Email already exists''
      else if e = Pg (Unique_violation ''job_applications_mobile_number_key'') then ''Mobile number already exists''
      else ''Failed to submit application'')"

text \<open>
  The handler proper: it reads \<^verbatim>\<open>req.body\<close> and \<^verbatim>\<open>req.files\<close> and never touches the disk.
  After the loop over the required fields it reads \<^verbatim>\<open>files.sscDoc\<close>: when \<^verbatim>\<open>req.files\<close> is
  \<^verbatim>\<open>undefined\<close> that throws, and the \<^verbatim>\<open>catch\<close> block answers 500.
\<close>

definition submit_P :: "(nat \<Rightarrow> nat) \<Rightarrow> form \<Rightarrow> uploads option \<Rightarrow> database \<Rightarrow> response \<times> database" where
  "submit_P rnd formData files db =
     (case find (\<lambda>field. falsy (formData field)) requiredFields_P of
        Some field \<Rightarrow>
          ((400, [(''success'', JBool False), (''message'', JStr (''Missing field: '' @ field))]), db)
      | None \<Rightarrow>
          (case files of
             None \<Rightarrow>
               ((500, [(''success'', JBool False), (''message'', JStr (submit_error_message TypeError))]), db)
           | Some fs \<Rightarrow>
               if fs ''sscDoc'' = None \<or> fs ''intermediateDoc'' = None \<or> fs ''graduationDoc'' = None
               then ((400, [(''success'', JBool False), (''message'', JStr ''Missing required documents'')]), db)
               else
                 (case insert_P (values_P (generateReferenceId rnd) formData fs) db of
                    (Inr r, db') \<Rightarrow>
                      ((201, [(''success'', JBool True), (''referenceId'', JStr (reference_id r))]), db')
                  | (Inl e, db') \<Rightarrow>
                      ((500, [(''success'', JBool False), (''message'', JStr (submit_error_message (Pg e)))]), db'))))"

text \<open>The route: multer first, then the handler.\<close>

definition post_applications_P ::
  "(nat \<Rightarrow> nat) \<Rightarrow> form \<Rightarrow> uploads option \<Rightarrow> database \<Rightarrow> store \<Rightarrow> response \<times> database \<times> store" where
  "post_applications_P rnd formData files db st =
     (case submit_P rnd formData files db of (res, db') \<Rightarrow> (res, db', stage_request upload_fields_P files st))"

subsection \<open>Backend/server.js (lines 145-235)\<close>

definition requiredFields_S :: "string list" where
  "requiredFields_S = [''full_name'', ''email'', ''mobile_number'', ''department'', ''job_role'']"

definition upload_fields_S :: "string list" where
  "upload_fields_S = [''sscDoc'', ''intermediateDoc'', ''graduationDoc'', ''additionalFiles'']"

text \<open>\<^verbatim>\<open>req.files[f] ? path.basename(req.files[f][0].path) : null\<close>\<close>

definition basename_or_null :: "uploads \<Rightarrow> string \<Rightarrow> string option" where
  "basename_or_null files name =
     (case files name of None \<Rightarrow> None | Some f \<Rightarrow> Some (stored_name name f))"

definition values_S :: "string \<Rightarrow> form \<Rightarrow> uploads \<Rightarrow> application" where
  "values_S ref body files =
     \<lparr>app_id = 0,
      reference_id = ref,
      full_name = text_of (body ''full_name''),
      email = text_of (body ''email''),
      mobile_number = text_of (body ''mobile_number''),
      department = text_of (body ''department''),
      job_role = text_of (body ''job_role''),
      status = ''Pending'',
      ssc_doc_path = basename_or_null files ''sscDoc'',
      intermediate_doc_path = basename_or_null files ''intermediateDoc'',
      graduation_doc_path = basename_or_null files ''graduationDoc'',
      additional_files_path = basename_or_null files ''additionalFiles'',
      offer_letter_path = None,
      profile =
        [(''dob'', or_null (body ''dob'')),
         (''father_name'', or_null (body ''father_name'')),
         (''permanent_address'', or_null (body ''permanent_address'')),
         (''expected_salary'', or_null (body ''expected_salary'')),
         (''interview_date'', or_null (body ''interview_date'')),
         (''joining_date'', or_null (body ''joining_date'')),
         (''employment_type'', or_null (body ''employment_type'')),
         (''branch_location'', or_null (body ''branch_location'')),
         (''ssc_year'', or_null (body ''ssc_year'')),
         (''ssc_percentage'', or_null (body ''ssc_percentage'')),
         (''intermediate_year'', or_null (body ''intermediate_year'')),
         (''intermediate_percentage'', or_null (body ''intermediate_percentage'')),
         (''college_name'', or_null (body ''college_name'')),
         (''register_number'', or_null (body ''register_number'')),
         (''graduation_year'', or_null (body ''graduation_year'')),
         (''graduation_percentage'', or_null (body ''graduation_percentage'')),
         (''additional_certifications'', or_null (body ''additional_certifications'')),
         (''experience_status'', (if falsy (body ''experience_status'') then Str ''No'' else or_null (body ''experience_status''))),
         (''years_of_experience'', or_null (body ''years_of_experience'')),
         (''previous_company'', or_null (body ''previous_company'')),
         (''previous_job_role'', or_null (body ''previous_job_role''))]\<rparr>"

text \<open>
  The handler proper. After the check of the required fields it builds the values of
  the insert and reads \<^verbatim>\<open>req.files['sscDoc']\<close>: when \<^verbatim>\<open>req.files\<close> is \<^verbatim>\<open>undefined\<close> that
  throws before any statement is sent, and the \<^verbatim>\<open>catch\<close> block answers 500. The
  \<^verbatim>\<open>details\<close> member of the 500 body is \<^verbatim>\<open>undefined\<close> unless \<^verbatim>\<open>NODE_ENV\<close> is
  \<^verbatim>\<open>development\<close>, and \<^verbatim>\<open>res.json\<close> drops it.
\<close>

definition submit_S :: "string \<Rightarrow> string \<Rightarrow> form \<Rightarrow> uploads option \<Rightarrow> database \<Rightarrow> response \<times> database" where
  "submit_S now r body files db =
     (let missingFields = filter (\<lambda>field. falsy (body field)) requiredFields_S
      in if length missingFields > 0
         then ((400, [(''success'', JBool False), (''error'', JStr ''Missing required fields''),
                      (''missing'', JStrs missingFields)]), db)
         else
           (case files of
              None \<Rightarrow> ((500, [(''success'', JBool False), (''error'', JStr ''Internal server error'')]), db)
            | Some fs \<Rightarrow>
                (case insert_S (values_S (reference_id_S now r) body fs) db of
                   (Inr row, db') \<Rightarrow>
                     ((201, [(''success'', JBool True), (''message'', JStr ''Application submitted successfully''),
                             (''reference_id'', JStr (reference_id row))]), db')
                 | (Inl e, db') \<Rightarrow>
                     ((500, [(''success'', JBool False), (''error'', JStr ''Internal server error'')]), db'))))"

definition post_applications_S ::
  "string \<Rightarrow> string \<Rightarrow> form \<Rightarrow> uploads option \<Rightarrow> database \<Rightarrow> store \<Rightarrow> response \<times> database \<times> store" where
  "post_applications_S now r body files db st =
     (case submit_S now r body files db of (res, db') \<Rightarrow> (res, db', stage_request upload_fields_S files st))"

section \<open>Offer letters\<close>

subsection \<open>Statements\<close>

text \<open>\<^verbatim>\<open>SELECT status, offer_letter_path FROM job_applications WHERE id = $1\<close>\<close>

definition select_by_id :: "int \<Rightarrow> database \<Rightarrow> (pg_error + application list) \<times> database" where
  "select_by_id i db =
     (if in_int4 i
      then (Inr (filter (\<lambda>r. app_id r = i) (rows db)), log_query Select_by_id db)
      else (Inl Out_of_range, log_query Select_by_id db))"

text \<open>\<^verbatim>\<open>UPDATE job_applications SET offer_letter_path = $1 WHERE id = $2 RETURNING ...\<close>\<close>

definition update_offer_letter :: "string \<Rightarrow> int \<Rightarrow> database \<Rightarrow> (pg_error + application list) \<times> database" where
  "update_offer_letter p i db =
     (if in_int4 i
      then (Inr (map (\<lambda>r. r\<lparr>offer_letter_path := Some p\<rparr>) (filter (\<lambda>r. app_id r = i) (rows db))),
            log_query Update_offer_letter
              (db\<lparr>rows := map (\<lambda>r. if app_id r = i then r\<lparr>offer_letter_path := Some p\<rparr> else r) (rows db)\<rparr>))
      else (Inl Out_of_range, log_query Update_offer_letter db))"

definition update_offer_letter_S :: "string \<Rightarrow> int option \<Rightarrow> database \<Rightarrow> (pg_error + application list) \<times> database" where
  "update_offer_letter_S p ident db =
     (case ident of
        None \<Rightarrow> (Inl Invalid_text, log_query Update_offer_letter db)
      | Some i \<Rightarrow> update_offer_letter p i db)"

text \<open>
  \<^verbatim>\<open>SELECT offer_letter_path FROM job_applications
  WHERE reference_id = $1 AND email = $2 AND status = 'Approved'\<close>
\<close>

definition select_offer_letter :: "string \<Rightarrow> string \<Rightarrow> database \<Rightarrow> application list \<times> database" where
  "select_offer_letter ref mail db =
     (filter (\<lambda>r. reference_id r = ref \<and> email r = mail \<and> status r = ''Approved'') (rows db),
      log_query Select_offer_letter db)"

subsection \<open>Issuing, standalone server (part_000, lines 336-394)\<close>

text \<open>
  The body of the \<^verbatim>\<open>try\<close> block after the two parameter checks: what it answers or
  throws, and the state it leaves.
\<close>

definition offer_letter_try_P ::
  "int \<Rightarrow> ufile \<Rightarrow> database \<Rightarrow> store \<Rightarrow> (exn + response) \<times> database \<times> store" where
  "offer_letter_try_P i file db st =
     (case select_by_id i db of
        (Inl e, db1) \<Rightarrow> (Inl (Pg e), db1, st)
      | (Inr [], db1) \<Rightarrow>
          (case unlinkSync (stored_name ''offerLetter'' file) st of
             Inl x \<Rightarrow> (Inl x, db1, st)
           | Inr st1 \<Rightarrow>
               (Inr (404, [(''success'', JBool False), (''message'', JStr ''Application not found'')]), db1, st1))
      | (Inr (row # _), db1) \<Rightarrow>
          if status row \<noteq> ''Approved''
          then
            (case unlinkSync (stored_name ''offerLetter'' file) st of
               Inl x \<Rightarrow> (Inl x, db1, st)
             | Inr st1 \<Rightarrow>
                 (Inr (400, [(''success'', JBool False),
                             (''message'', JStr ''Application must be approved to upload an offer letter'')]),
                  db1, st1))
          else
            (let st1 = (case or_none (offer_letter_path row) of
                          None \<Rightarrow> st
                        | Some old \<Rightarrow> if existsSync old st then st(old := None) else st)
             in case update_offer_letter (stored_name ''offerLetter'' file) i db1 of
                  (Inl e, db2) \<Rightarrow> (Inl (Pg e), db2, st1)
                | (Inr upd, db2) \<Rightarrow>
                    (Inr (200, (''success'', JBool True) #
                               (case upd of
                                  [] \<Rightarrow> []
                                | u # _ \<Rightarrow> [(''data'', JRow [(''id'', Num (app_id u)),
                                                               (''offer_letter_path'', of_opt (offer_letter_path u))])])),
                     db2, st1)))"

text \<open>
  The handler. \<open>ident\<close> is \<^verbatim>\<open>parseInt(req.params.id)\<close>, \<open>file\<close> is \<^verbatim>\<open>req.file\<close>. The
  \<^verbatim>\<open>catch\<close> block unlinks the upload before it answers; if that throws, no answer is
  sent (\<open>None\<close>).
\<close>

definition offer_letter_P ::
  "int option \<Rightarrow> ufile option \<Rightarrow> database \<Rightarrow> store \<Rightarrow> response option \<times> database \<times> store" where
  "offer_letter_P ident file db st =
     (case ident of
        None \<Rightarrow>
          (Some (400, [(''success'', JBool False), (''message'', JStr ''Invalid application ID'')]), db, st)
      | Some i \<Rightarrow>
          (case file of
             None \<Rightarrow> (Some (400, [(''success'', JBool False), (''message'', JStr ''No file uploaded'')]), db, st)
           | Some f \<Rightarrow>
               (case offer_letter_try_P i f db st of
                  (Inr res, db', st') \<Rightarrow> (Some res, db', st')
                | (Inl x, db', st') \<Rightarrow>
                    (case unlinkSync (stored_name ''offerLetter'' f) st' of
                       Inl _ \<Rightarrow> (None, db', st')
                     | Inr st'' \<Rightarrow>
                         (Some (500, [(''success'', JBool False), (''message'', JStr ''Failed to upload offer letter'')]),
                          db', st'')))))"

text \<open>The route: \<^verbatim>\<open>offerLetterUpload\<close> (one file in the field \<^verbatim>\<open>offerLetter\<close>), then the handler.\<close>

definition post_offer_letter_P ::
  "int option \<Rightarrow> ufile option \<Rightarrow> database \<Rightarrow> store \<Rightarrow> response option \<times> database \<times> store" where
  "post_offer_letter_P ident file db st =
     offer_letter_P ident file db (stage [''offerLetter''] (case file of None \<Rightarrow> Map.empty | Some f \<Rightarrow> [''offerLetter'' \<mapsto> f]) st)"

subsection \<open>Issuing, Backend/server.js (lines 304-349)\<close>

definition offer_letter_try_S ::
  "int option \<Rightarrow> ufile \<Rightarrow> database \<Rightarrow> store \<Rightarrow> (exn + response) \<times> database \<times> store" where
  "offer_letter_try_S ident file db st =
     (case update_offer_letter_S (stored_name ''offerLetter'' file) ident db of
        (Inl e, db1) \<Rightarrow> (Inl (Pg e), db1, st)
      | (Inr [], db1) \<Rightarrow>
          (case unlinkSync (stored_name ''offerLetter'' file) st of
             Inl x \<Rightarrow> (Inl x, db1, st)
           | Inr st1 \<Rightarrow>
               (Inr (404, [(''success'', JBool False), (''error'', JStr ''Application not found'')]), db1, st1))
      | (Inr (_ # _), db1) \<Rightarrow>
          (Inr (200, [(''success'', JBool True), (''message'', JStr ''Offer letter uploaded successfully''),
                      (''filePath'', JStr (''/Uploads/'' @ stored_name ''offerLetter'' file))]),
           db1, st))"

definition offer_letter_S ::
  "int option \<Rightarrow> ufile option \<Rightarrow> database \<Rightarrow> store \<Rightarrow> response option \<times> database \<times> store" where
  "offer_letter_S ident file db st =
     (case file of
        None \<Rightarrow> (Some (400, [(''success'', JBool False), (''error'', JStr ''No file uploaded'')]), db, st)
      | Some f \<Rightarrow>
          (case offer_letter_try_S ident f db st of
             (Inr res, db', st') \<Rightarrow> (Some res, db', st')
           | (Inl x, db', st') \<Rightarrow>
               (case unlinkSync (stored_name ''offerLetter'' f) st' of
                  Inl _ \<Rightarrow> (None, db', st')
                | Inr st'' \<Rightarrow>
                    (Some (500, [(''success'', JBool False), (''error'', JStr ''Failed to upload offer letter'')]),
                     db', st''))))"

definition post_offer_letter_S ::
  "int option \<Rightarrow> ufile option \<Rightarrow> database \<Rightarrow> store \<Rightarrow> response option \<times> database \<times> store" where
  "post_offer_letter_S ident file db st =
     offer_letter_S ident file db (stage [''offerLetter''] (case file of None \<Rightarrow> Map.empty | Some f \<Rightarrow> [''offerLetter'' \<mapsto> f]) st)"

subsection \<open>Retrieval: GET /api/offer-letter (part_000, lines 397-430)\<close>

text \<open>
  \<open>ref\<close> and \<open>mail\<close> are \<^verbatim>\<open>req.query.reference_id\<close> and \<^verbatim>\<open>req.query.email\<close>, \<open>None\<close> when
  the parameter is absent. The statement takes text parameters and raises no modelled
  error.
\<close>

definition get_offer_letter ::
  "string option \<Rightarrow> string option \<Rightarrow> database \<Rightarrow> store \<Rightarrow> response \<times> database" where
  "get_offer_letter ref mail db st =
     (if falsy ref \<or> falsy mail
      then ((400, [(''success'', JBool False), (''message'', JStr ''Reference ID and email are required'')]), db)
      else
        (case select_offer_letter (text_of ref) (text_of mail) db of
           ([], db') \<Rightarrow>
             ((404, [(''success'', JBool False), (''message'', JStr ''Application not found or not approved'')]), db')
         | (row # _, db') \<Rightarrow>
             (case or_none (offer_letter_path row) of
                None \<Rightarrow>
                  ((404, [(''success'', JBool False), (''message'', JStr ''Offer letter not found'')]), db')
              | Some p \<Rightarrow>
                  if existsSync p st
                  then ((200, [(''success'', JBool True), (''data'', JRow [(''offer_letter_path'', Str p)])]), db')
                  else ((404, [(''success'', JBool False),
                               (''message'', JStr ''Offer letter file not found on server'')]), db'))))"

section \<open>Example states\<close>

text \<open>A table with one application, in a given status and with a given offer-letter pointer.\<close>

definition example_row :: "string \<Rightarrow> string option \<Rightarrow> application" where
  "example_row s p =
     \<lparr>app_id = 1, reference_id = ''AAAAAAAAAAAAAAA'', full_name = ''A'', email = ''a@x.com'',
      mobile_number = ''1111111111'', department = ''Eng'', job_role = ''Dev'', status = s,
      ssc_doc_path = None, intermediate_doc_path = None, graduation_doc_path = None,
      additional_files_path = None, offer_letter_path = p, profile = []\<rparr>"

definition example_db :: "string \<Rightarrow> string option \<Rightarrow> database" where
  "example_db s p = \<lparr>rows = [example_row s p], next_id = 2, qlog = []\<rparr>"

text \<open>A complete form for either server, with a given email and mobile number.\<close>

definition example_form :: "string \<Rightarrow> string \<Rightarrow> form" where
  "example_form mail mobile =
     map_of [(''full_name'', ''B''), (''email'', mail), (''mobile_number'', mobile),
       (''department'', ''Eng''), (''job_role'', ''Dev''), (''dob'', ''2000-01-01''),
       (''father_name'', ''C''), (''permanent_address'', ''D''), (''expected_salary'', ''1000''),
       (''employment_type'', ''Permanent''), (''branch_location'', ''E''), (''ssc_year'', ''2015''),
       (''ssc_percentage'', ''80''), (''intermediate_year'', ''2017''),
       (''intermediate_percentage'', ''80''), (''college_name'', ''F''), (''register_number'', ''G1''),
       (''graduation_year'', ''2021''), (''graduation_percentage'', ''80''),
       (''experience_status'', ''No'')]"

text \<open>An uploaded PDF, and a submission's three required documents.\<close>

definition example_file :: ufile where
  "example_file = \<lparr>uniqueSuffix = ''1-2'', extname = ''.pdf'', contents = ''%PDF''\<rparr>"

definition example_files :: uploads where
  "example_files = [''sscDoc'' \<mapsto> example_file, ''intermediateDoc'' \<mapsto> example_file,
     ''graduationDoc'' \<mapsto> example_file]"

text \<open>A table of Backend/server.js with one application.\<close>

definition example_db_S :: database where
  "example_db_S = \<lparr>rows = [(example_row ''Pending'' None)\<lparr>reference_id := ''REF17000000000007''\<rparr>], next_id = 2, qlog = []\<rparr>"

section \<open>Auxiliary facts\<close>

lemma update_status_rows:
  "in_int4 i \<Longrightarrow>
     rows (snd (update_status v i db)) = map (\<lambda>r. if app_id r = i then r\<lparr>status := v\<rparr> else r) (rows db)"
  by (simp add: update_status_def log_query_def)

lemma put_status_P_rows:
  "includes_status v \<Longrightarrow> in_int4 i \<Longrightarrow>
     rows (snd (put_status_P (Some i) (Some v) db)) =
       map (\<lambda>r. if app_id r = i then r\<lparr>status := v\<rparr> else r) (rows db)"
  by (simp add: put_status_P_def update_status_def log_query_def split: list.splits)

lemma put_status_S_rows:
  "includes_status v \<Longrightarrow> in_int4 i \<Longrightarrow>
     rows (snd (put_status_S (Some i) (Some v) db)) =
       map (\<lambda>r. if app_id r = i then r\<lparr>status := v\<rparr> else r) (rows db)"
  by (simp add: put_status_S_def update_status_S_def update_status_def log_query_def split: list.splits)

lemma insert_P_rows:
  "take (length (rows db)) (rows (snd (insert_P v db))) = rows db"
  by (simp add: insert_P_def log_query_def Let_def)

lemma insert_S_rows:
  "take (length (rows db)) (rows (snd (insert_S v db))) = rows db"
  by (simp add: insert_S_def log_query_def Let_def)

lemma submit_P_rows:
  "take (length (rows db)) (rows (snd (submit_P rnd fd files db))) = rows db"
  by (auto simp: submit_P_def insert_P_rows split: option.splits prod.splits sum.splits
      dest: arg_cong [where f = "\<lambda>p. take (length (rows db)) (rows (snd p))"])

lemma submit_S_rows:
  "take (length (rows db)) (rows (snd (submit_S now r fd files db))) = rows db"
  by (auto simp: submit_S_def Let_def insert_S_rows split: option.splits prod.splits sum.splits
      dest: arg_cong [where f = "\<lambda>p. take (length (rows db)) (rows (snd p))"])

lemma update_offer_letter_status:
  "map status (rows (snd (update_offer_letter p i db))) = map status (rows db)"
  by (simp add: update_offer_letter_def log_query_def comp_def if_distrib [of status] cong: if_cong)

lemma select_by_id_rows: "rows (snd (select_by_id i db)) = rows db"
  by (simp add: select_by_id_def log_query_def)

lemma offer_letter_try_P_status:
  "map status (rows (fst (snd (offer_letter_try_P i f db st)))) = map status (rows db)"
proof -
  obtain res db1 where sel: "select_by_id i db = (res, db1)" by (cases "select_by_id i db")
  then have r1: "rows db1 = rows db" using select_by_id_rows [of i db] by simp
  obtain res2 db2 where upd: "update_offer_letter (stored_name ''offerLetter'' f) i db1 = (res2, db2)"
    by (cases "update_offer_letter (stored_name ''offerLetter'' f) i db1")
  then have r2: "map status (rows db2) = map status (rows db)"
    using update_offer_letter_status [of "stored_name ''offerLetter'' f" i db1] r1 by simp
  show ?thesis
    using sel upd r1 r2
    by (simp add: offer_letter_try_P_def Let_def split: sum.splits list.splits)
qed

lemma offer_letter_P_status:
  "map status (rows (fst (snd (offer_letter_P ident upl db st)))) = map status (rows db)"
proof (cases ident)
  case None
  then show ?thesis by (simp add: offer_letter_P_def)
next
  case (Some i)
  show ?thesis
  proof (cases upl)
    case None
    then show ?thesis using Some by (simp add: offer_letter_P_def)
  next
    case (Some f)
    obtain res db' st' where t: "offer_letter_try_P i f db st = (res, db', st')"
      by (cases "offer_letter_try_P i f db st")
    then have "map status (rows db') = map status (rows db)"
      using offer_letter_try_P_status [of i f db st] by simp
    then show ?thesis
      using t Some \<open>ident = Some i\<close>
      by (simp add: offer_letter_P_def split: sum.splits)
  qed
qed

lemma offer_letter_S_status:
  "map status (rows (fst (snd (offer_letter_S ident upl db st)))) = map status (rows db)"
proof (cases upl)
  case None
  then show ?thesis by (simp add: offer_letter_S_def)
next
  case (Some f)
  have u: "map status (rows (snd (update_offer_letter_S (stored_name ''offerLetter'' f) ident db))) = map status (rows db)"
    by (cases ident) (simp_all add: update_offer_letter_S_def update_offer_letter_status log_query_def)
  obtain res db1 where upd: "update_offer_letter_S (stored_name ''offerLetter'' f) ident db = (res, db1)"
    by (cases "update_offer_letter_S (stored_name ''offerLetter'' f) ident db")
  then have "map status (rows db1) = map status (rows db)" using u by simp
  then show ?thesis
    using upd Some
    by (simp add: offer_letter_S_def offer_letter_try_S_def split: sum.splits list.splits)
qed

lemma get_offer_letter_rows: "rows (snd (get_offer_letter ref mail db st)) = rows db"
  by (simp add: get_offer_letter_def select_offer_letter_def log_query_def
      split: list.splits option.splits)

lemma generateReferenceId_zero: "generateReferenceId (\<lambda>_. 0) = ''AAAAAAAAAAAAAAA''"
  by code_simp

lemma example_form_complete:
  "mail \<noteq> [] \<Longrightarrow> mobile \<noteq> [] \<Longrightarrow> find (\<lambda>field. falsy (example_form mail mobile field)) requiredFields_P = None"
  by (simp add: example_form_def requiredFields_P_def falsy_def)

lemma stage_request_simps:
  "stage_request names None st = st"
  "stage_request names (Some fs) st = stage names fs st"
  by (simp_all add: stage_request_def)

text \<open>
  A request that is not multipart and has every required field: reading the files
  throws, the answer is 500 and no statement is sent.
\<close>

lemma submit_P_not_multipart:
  "find (\<lambda>field. falsy (fd field)) requiredFields_P = None \<Longrightarrow>
     submit_P rnd fd None db =
       ((500, [(''success'', JBool False), (''message'', JStr ''Failed to submit application'')]), db)"
  by (simp add: submit_P_def submit_error_message_def)

lemma submit_S_not_multipart:
  "filter (\<lambda>field. falsy (fd field)) requiredFields_S = [] \<Longrightarrow>
     submit_S now r fd None db =
       ((500, [(''success'', JBool False), (''error'', JStr ''Internal server error'')]), db)"
  by (simp add: submit_S_def Let_def)

lemma stage_three:
  "stage upload_fields_P [''sscDoc'' \<mapsto> f, ''intermediateDoc'' \<mapsto> g] Map.empty =
     [stored_name ''sscDoc'' f \<mapsto> contents f, stored_name ''intermediateDoc'' g \<mapsto> contents g]"
  by (simp add: stage_def upload_fields_P_def write_upload_def)

section \<open>Status update\<close>

text \<open>
  C9. A status update whose target is not one of the strings \<^verbatim>\<open>'Pending'\<close>,
  \<^verbatim>\<open>'Approved'\<close>, \<^verbatim>\<open>'Rejected'\<close> (a missing or non-string member included) is answered
  400 and leaves the database as it was: no row changes and no statement is sent. This
  holds in both servers and for every path parameter.
\<close>

theorem put_invalid_status_rejected:
  assumes "s \<noteq> Some ''Pending''" and "s \<noteq> Some ''Approved''" and "s \<noteq> Some ''Rejected''"
  shows "fst (fst (put_status_P ident s db)) = 400 \<and> snd (put_status_P ident s db) = db \<and>
         fst (fst (put_status_S ident s db)) = 400 \<and> snd (put_status_S ident s db) = db"
  using assms
  by (auto simp: put_status_P_def put_status_S_def invalid_status_P_def invalid_status_S_def
        includes_status_def status_values_def split: option.splits)

text \<open>\<^verbatim>\<open>PUT status="Cancelled"\<close> on an approved application: 400, and it stays approved.\<close>

theorem put_invalid_status_rejected_witness:
  "Some ''Cancelled'' \<noteq> Some ''Pending'' \<and> Some ''Cancelled'' \<noteq> Some ''Approved'' \<and>
   Some ''Cancelled'' \<noteq> Some ''Rejected'' \<and>
   fst (fst (put_status_P (Some 1) (Some ''Cancelled'') (example_db ''Approved'' None))) = 400 \<and>
   map status (rows (snd (put_status_P (Some 1) (Some ''Cancelled'') (example_db ''Approved'' None)))) = [''Approved''] \<and>
   fst (fst (put_status_S (Some 1) (Some ''Cancelled'') (example_db ''Approved'' None))) = 400 \<and>
   map status (rows (snd (put_status_S (Some 1) (Some ''Cancelled'') (example_db ''Approved'' None)))) = [''Approved'']"
  using put_invalid_status_rejected [of "Some ''Cancelled''" "Some 1" "example_db ''Approved'' None"]
  by (simp add: example_db_def example_row_def)

text \<open>
  C10. The target status is checked before the application is looked up. For an
  invalid target and an id that no application has, both servers answer with the
  validation error (400) and return the database untouched, statement log included:
  nothing was read or written. The same id with a valid target reaches the
  \<^verbatim>\<open>UPDATE\<close> and is answered 404.
\<close>

theorem put_validates_before_lookup:
  assumes "s \<noteq> Some ''Pending''" and "s \<noteq> Some ''Approved''" and "s \<noteq> Some ''Rejected''"
    and "i \<notin> set (map app_id (rows db))" and "in_int4 i"
  shows "put_status_P (Some i) s db = (invalid_status_P, db) \<and> fst invalid_status_P = 400 \<and>
         put_status_S (Some i) s db = (invalid_status_S, db) \<and> fst invalid_status_S = 400 \<and>
         fst (fst (put_status_P (Some i) (Some ''Approved'') db)) = 404 \<and>
         fst (fst (put_status_S (Some i) (Some ''Approved'') db)) = 404 \<and>
         qlog (snd (put_status_P (Some i) (Some ''Approved'') db)) = qlog db @ [Update_status] \<and>
         qlog (snd (put_status_S (Some i) (Some ''Approved'') db)) = qlog db @ [Update_status]"
proof -
  have none: "filter (\<lambda>r. app_id r = i) (rows db) = []"
    using assms(4) by (auto simp: filter_empty_conv)
  have invalid: "put_status_P (Some i) s db = (invalid_status_P, db)"
      "put_status_S (Some i) s db = (invalid_status_S, db)"
    using assms(1-3)
    by (auto simp: put_status_P_def put_status_S_def includes_status_def status_values_def
          split: option.splits)
  have found: "fst (fst (put_status_P (Some i) (Some ''Approved'') db)) = 404"
      "fst (fst (put_status_S (Some i) (Some ''Approved'') db)) = 404"
      "qlog (snd (put_status_P (Some i) (Some ''Approved'') db)) = qlog db @ [Update_status]"
      "qlog (snd (put_status_S (Some i) (Some ''Approved'') db)) = qlog db @ [Update_status]"
    using none assms(5)
    by (simp_all add: put_status_P_def put_status_S_def includes_status_def status_values_def
          update_status_S_def update_status_def log_query_def)
  show ?thesis
    using invalid found by (simp add: invalid_status_P_def invalid_status_S_def)
qed

theorem put_validates_before_lookup_witness:
  "Some ''Cancelled'' \<noteq> Some ''Pending'' \<and> Some ''Cancelled'' \<noteq> Some ''Approved'' \<and>
   Some ''Cancelled'' \<noteq> Some ''Rejected'' \<and>
   7 \<notin> set (map app_id (rows (example_db ''Pending'' None))) \<and> in_int4 7 \<and>
   fst (fst (put_status_P (Some 7) (Some ''Cancelled'') (example_db ''Pending'' None))) = 400 \<and>
   fst (fst (put_status_S (Some 7) (Some ''Cancelled'') (example_db ''Pending'' None))) = 400 \<and>
   qlog (snd (put_status_P (Some 7) (Some ''Cancelled'') (example_db ''Pending'' None))) = [] \<and>
   qlog (snd (put_status_S (Some 7) (Some ''Cancelled'') (example_db ''Pending'' None))) = [] \<and>
   fst (fst (put_status_P (Some 7) (Some ''Approved'') (example_db ''Pending'' None))) = 404 \<and>
   fst (fst (put_status_S (Some 7) (Some ''Approved'') (example_db ''Pending'' None))) = 404"
  using put_validates_before_lookup [of "Some ''Cancelled''" 7 "example_db ''Pending'' None"]
  by (simp add: example_db_def example_row_def in_int4_def)

text \<open>
  C3, as stated, fails: both servers accept \<^verbatim>\<open>'Pending'\<close> as a target whatever the
  current status, so an approved application returns to pending.
\<close>

theorem status_reverts_counterexample:
  "map status (rows (example_db ''Approved'' None)) = [''Approved''] \<and>
   fst (fst (put_status_P (Some 1) (Some ''Pending'') (example_db ''Approved'' None))) = 200 \<and>
   map status (rows (snd (put_status_P (Some 1) (Some ''Pending'') (example_db ''Approved'' None)))) = [''Pending''] \<and>
   fst (fst (put_status_S (Some 1) (Some ''Pending'') (example_db ''Approved'' None))) = 200 \<and>
   map status (rows (snd (put_status_S (Some 1) (Some ''Pending'') (example_db ''Approved'' None)))) = [''Pending'']"
  by (simp add: put_status_P_def put_status_S_def update_status_S_def update_status_def
      includes_status_def status_values_def in_int4_def log_query_def example_db_def example_row_def)

text \<open>
  C3, amended. A status update with a valid target stores that target in the row with
  the given id, whatever its current status (so a terminal record can return to
  \<^verbatim>\<open>'Pending'\<close>), and changes no other row. No other operation changes the status of
  an existing row: a submission keeps the existing rows as they are, issuing an offer
  letter keeps every status, and retrieval keeps the table.
\<close>

theorem status_changes_only_by_put:
  assumes "v \<in> set status_values" and "in_int4 i"
  shows "rows (snd (put_status_P (Some i) (Some v) db)) =
           map (\<lambda>r. if app_id r = i then r\<lparr>status := v\<rparr> else r) (rows db) \<and>
         rows (snd (put_status_S (Some i) (Some v) db)) =
           map (\<lambda>r. if app_id r = i then r\<lparr>status := v\<rparr> else r) (rows db) \<and>
         take (length (rows db)) (rows (snd (submit_P rnd fd files db))) = rows db \<and>
         take (length (rows db)) (rows (snd (submit_S now r fd files db))) = rows db \<and>
         map status (rows (fst (snd (offer_letter_P ident upl db st)))) = map status (rows db) \<and>
         map status (rows (fst (snd (offer_letter_S ident upl db st)))) = map status (rows db) \<and>
         rows (snd (get_offer_letter ref mail db st)) = rows db"
  using assms
  by (simp add: put_status_P_rows put_status_S_rows includes_status_def submit_P_rows submit_S_rows
      offer_letter_P_status offer_letter_S_status get_offer_letter_rows)

theorem status_changes_only_by_put_witness:
  "''Pending'' \<in> set status_values \<and> in_int4 1 \<and>
   map status (rows (example_db ''Approved'' None)) = [''Approved''] \<and>
   map status (rows (snd (put_status_P (Some 1) (Some ''Pending'') (example_db ''Approved'' None)))) = [''Pending''] \<and>
   map status (rows (snd (put_status_S (Some 1) (Some ''Pending'') (example_db ''Approved'' None)))) = [''Pending''] \<and>
   map status (rows (fst (snd (offer_letter_P (Some 1) (Some example_file) (example_db ''Approved'' None) Map.empty)))) = [''Approved'']"
  using status_changes_only_by_put [where v = "''Pending''" and i = 1 and db = "example_db ''Approved'' None"
      and rnd = "\<lambda>_. 0" and fd = Map.empty and files = None and now = "''1''" and r = "''2''"
      and ident = "Some 1" and upl = "Some example_file" and st = Map.empty and ref = None and mail = None]
  by (simp add: status_values_def in_int4_def example_db_def example_row_def)

section \<open>Submission\<close>

text \<open>
  C4, as stated, fails: on a collision of the generated reference id the standalone
  server answers 500 at once, after a single \<^verbatim>\<open>INSERT\<close>.
\<close>

theorem reference_conflict_counterexample:
  "submit_P (\<lambda>_. 0) (example_form ''b@y.com'' ''2222222222'') (Some example_files) (example_db ''Pending'' None) =
     ((500, [(''success'', JBool False), (''message'', JStr ''Failed to submit application'')]),
      \<lparr>rows = [example_row ''Pending'' None], next_id = 3, qlog = [Insert_application]\<rparr>)"
  by (simp add: submit_P_def example_form_complete example_files_def generateReferenceId_zero
      insert_P_def values_P_def Let_def log_query_def example_db_def example_row_def
      submit_error_message_def)

text \<open>
  C4, amended. When the generated reference id is already in the table, the handler
  does not generate another one and does not retry: it has sent exactly one \<^verbatim>\<open>INSERT\<close>,
  the table has the rows it had, and the client is answered 500 (\<^verbatim>\<open>'Failed to submit
  application'\<close> by the standalone server, \<^verbatim>\<open>'Internal server error'\<close> by
  Backend/server.js). The request is a multipart one, \<open>Some fs\<close>: no other request gets
  as far as the insert.
\<close>

theorem reference_conflict_not_retried:
  "(find (\<lambda>field. falsy (fd field)) requiredFields_P = None \<and>
    fs ''sscDoc'' \<noteq> None \<and> fs ''intermediateDoc'' \<noteq> None \<and> fs ''graduationDoc'' \<noteq> None \<and>
    generateReferenceId rnd \<in> set (map reference_id (rows db)) \<longrightarrow>
    submit_P rnd fd (Some fs) db =
      ((500, [(''success'', JBool False), (''message'', JStr ''Failed to submit application'')]),
       db\<lparr>next_id := next_id db + 1, qlog := qlog db @ [Insert_application]\<rparr>)) \<and>
   (filter (\<lambda>field. falsy (fd field)) requiredFields_S = [] \<and>
    reference_id_S now r \<in> set (map reference_id (rows db)) \<longrightarrow>
    submit_S now r fd (Some fs) db =
      ((500, [(''success'', JBool False), (''error'', JStr ''Internal server error'')]),
       db\<lparr>next_id := next_id db + 1, qlog := qlog db @ [Insert_application]\<rparr>))"
proof (intro conjI impI)
  assume a: "find (\<lambda>field. falsy (fd field)) requiredFields_P = None \<and>
    fs ''sscDoc'' \<noteq> None \<and> fs ''intermediateDoc'' \<noteq> None \<and> fs ''graduationDoc'' \<noteq> None \<and>
    generateReferenceId rnd \<in> set (map reference_id (rows db))"
  have v: "reference_id (values_P (generateReferenceId rnd) fd fs) = generateReferenceId rnd"
    by (simp add: values_P_def)
  have "insert_P (values_P (generateReferenceId rnd) fd fs) db =
          (Inl (Unique_violation ''job_applications_reference_id_key''),
           db\<lparr>next_id := next_id db + 1, qlog := qlog db @ [Insert_application]\<rparr>)"
    using a unfolding insert_P_def Let_def v by (simp add: log_query_def)
  then show "submit_P rnd fd (Some fs) db =
      ((500, [(''success'', JBool False), (''message'', JStr ''Failed to submit application'')]),
       db\<lparr>next_id := next_id db + 1, qlog := qlog db @ [Insert_application]\<rparr>)"
    using a by (simp add: submit_P_def submit_error_message_def)
next
  assume a: "filter (\<lambda>field. falsy (fd field)) requiredFields_S = [] \<and>
    reference_id_S now r \<in> set (map reference_id (rows db))"
  have v: "reference_id (values_S (reference_id_S now r) fd fs) = reference_id_S now r"
    by (simp add: values_S_def)
  have "insert_S (values_S (reference_id_S now r) fd fs) db =
          (Inl (Unique_violation ''job_applications_reference_id_key''),
           db\<lparr>next_id := next_id db + 1, qlog := qlog db @ [Insert_application]\<rparr>)"
    using a unfolding insert_S_def Let_def v by (simp add: log_query_def)
  then show "submit_S now r fd (Some fs) db =
      ((500, [(''success'', JBool False), (''error'', JStr ''Internal server error'')]),
       db\<lparr>next_id := next_id db + 1, qlog := qlog db @ [Insert_application]\<rparr>)"
    using a by (simp add: submit_S_def Let_def)
qed

theorem reference_conflict_not_retried_witness:
  "find (\<lambda>field. falsy (example_form ''b@y.com'' ''2222222222'' field)) requiredFields_P = None \<and>
   example_files ''sscDoc'' \<noteq> None \<and> example_files ''intermediateDoc'' \<noteq> None \<and>
   example_files ''graduationDoc'' \<noteq> None \<and>
   generateReferenceId (\<lambda>_. 0) \<in> set (map reference_id (rows (example_db ''Pending'' None))) \<and>
   fst (fst (submit_P (\<lambda>_. 0) (example_form ''b@y.com'' ''2222222222'') (Some example_files) (example_db ''Pending'' None))) = 500 \<and>
   rows (snd (submit_P (\<lambda>_. 0) (example_form ''b@y.com'' ''2222222222'') (Some example_files) (example_db ''Pending'' None))) =
     rows (example_db ''Pending'' None) \<and>
   qlog (snd (submit_P (\<lambda>_. 0) (example_form ''b@y.com'' ''2222222222'') (Some example_files) (example_db ''Pending'' None))) =
     [Insert_application] \<and>
   filter (\<lambda>field. falsy (example_form ''b@y.com'' ''2222222222'' field)) requiredFields_S = [] \<and>
   reference_id_S ''1700000000000'' ''7'' \<in> set (map reference_id (rows example_db_S)) \<and>
   fst (fst (submit_S ''1700000000000'' ''7'' (example_form ''b@y.com'' ''2222222222'') (Some example_files) example_db_S)) = 500 \<and>
   rows (snd (submit_S ''1700000000000'' ''7'' (example_form ''b@y.com'' ''2222222222'') (Some example_files) example_db_S)) =
     rows example_db_S \<and>
   qlog (snd (submit_S ''1700000000000'' ''7'' (example_form ''b@y.com'' ''2222222222'') (Some example_files) example_db_S)) =
     [Insert_application]"
proof -
  have p: "find (\<lambda>field. falsy (example_form ''b@y.com'' ''2222222222'' field)) requiredFields_P = None"
    by (simp add: example_form_complete)
  have s: "filter (\<lambda>field. falsy (example_form ''b@y.com'' ''2222222222'' field)) requiredFields_S = []"
    by (simp add: example_form_def requiredFields_S_def falsy_def)
  have f: "example_files ''sscDoc'' \<noteq> None \<and> example_files ''intermediateDoc'' \<noteq> None \<and>
      example_files ''graduationDoc'' \<noteq> None"
    by (simp add: example_files_def)
  have g: "generateReferenceId (\<lambda>_. 0) \<in> set (map reference_id (rows (example_db ''Pending'' None)))"
    by (simp add: generateReferenceId_zero example_db_def example_row_def)
  have h: "reference_id_S ''1700000000000'' ''7'' \<in> set (map reference_id (rows example_db_S))"
    by (simp add: reference_id_S_def example_db_S_def)
  show ?thesis
    using reference_conflict_not_retried [where fd = "example_form ''b@y.com'' ''2222222222''"
        and fs = example_files and rnd = "\<lambda>_. 0" and db = "example_db ''Pending'' None"
        and now = "''1700000000000''" and r = "''7''"]
      reference_conflict_not_retried [where fd = "example_form ''b@y.com'' ''2222222222''"
        and fs = example_files and rnd = "\<lambda>_. 0" and db = example_db_S
        and now = "''1700000000000''" and r = "''7''"]
      p s f g h
    by (simp add: example_db_def example_db_S_def)
qed

text \<open>
  C6, as stated, fails. In the standalone server a multipart submission without the
  graduation document is answered 400 with a fixed message that names no document, and the two
  documents that were uploaded stay in the upload directory, which was empty before.
\<close>

theorem missing_document_counterexample:
  "post_applications_P (\<lambda>_. 0) (example_form ''b@y.com'' ''2222222222'')
      (Some [''sscDoc'' \<mapsto> example_file, ''intermediateDoc'' \<mapsto> example_file])
      (example_db ''Pending'' None) Map.empty =
     ((400, [(''success'', JBool False), (''message'', JStr ''Missing required documents'')]),
      example_db ''Pending'' None,
      [''sscDoc-1-2.pdf'' \<mapsto> ''%PDF'', ''intermediateDoc-1-2.pdf'' \<mapsto> ''%PDF''])"
  by (simp add: post_applications_P_def submit_P_def example_form_complete stage_request_simps
      stage_three stored_name_def example_file_def)

text \<open>
  Backend/server.js has no document check: the same form in a multipart request
  without any document is accepted and a row is inserted.
\<close>

lemma submit_S_without_documents:
  "post_applications_S ''1700000000000'' ''7'' (example_form ''b@y.com'' ''2222222222'') (Some Map.empty)
      (example_db ''Pending'' None) Map.empty =
     ((201, [(''success'', JBool True), (''message'', JStr ''Application submitted successfully''),
             (''reference_id'', JStr ''REF17000000000007'')]),
      \<lparr>rows = [example_row ''Pending'' None,
         values_S ''REF17000000000007'' (example_form ''b@y.com'' ''2222222222'') Map.empty \<lparr>app_id := 2\<rparr>],
        next_id = 3, qlog = [Insert_application]\<rparr>,
      Map.empty)"
  by (simp add: post_applications_S_def submit_S_def Let_def insert_S_def log_query_def
      reference_id_S_def example_db_def example_row_def stage_request_simps stage_def
      upload_fields_S_def requiredFields_S_def example_form_def falsy_def values_S_def)

text \<open>
  C6, amended. In the standalone server, a multipart submission that reaches the
  handler with every required field but without the SSC, intermediate or graduation
  document is answered 400 with the fixed message \<^verbatim>\<open>'Missing required documents'\<close>,
  whichever document is missing, and the database is left as it was. More generally,
  every submission that lacks one of the three documents, whatever its fields and
  also when the request is not multipart and so carries no files at all, leaves the
  database as it was: no row is inserted and no statement is sent.
\<close>

theorem missing_document_rejected:
  "(find (\<lambda>field. falsy (fd field)) requiredFields_P = None \<and>
    (fs ''sscDoc'' = None \<or> fs ''intermediateDoc'' = None \<or> fs ''graduationDoc'' = None) \<longrightarrow>
      fst (post_applications_P rnd fd (Some fs) db st) =
        (400, [(''success'', JBool False), (''message'', JStr ''Missing required documents'')]) \<and>
      fst (snd (post_applications_P rnd fd (Some fs) db st)) = db) \<and>
   ((case files of
       None \<Rightarrow> True
     | Some u \<Rightarrow> u ''sscDoc'' = None \<or> u ''intermediateDoc'' = None \<or> u ''graduationDoc'' = None) \<longrightarrow>
      fst (snd (post_applications_P rnd fd files db st)) = db)"
proof (intro conjI impI)
  assume a: "find (\<lambda>field. falsy (fd field)) requiredFields_P = None \<and>
    (fs ''sscDoc'' = None \<or> fs ''intermediateDoc'' = None \<or> fs ''graduationDoc'' = None)"
  then have "submit_P rnd fd (Some fs) db =
      ((400, [(''success'', JBool False), (''message'', JStr ''Missing required documents'')]), db)"
    by (auto simp: submit_P_def)
  then show "fst (post_applications_P rnd fd (Some fs) db st) =
        (400, [(''success'', JBool False), (''message'', JStr ''Missing required documents'')])"
      and "fst (snd (post_applications_P rnd fd (Some fs) db st)) = db"
    by (simp_all add: post_applications_P_def)
next
  assume m: "case files of
       None \<Rightarrow> True
     | Some u \<Rightarrow> u ''sscDoc'' = None \<or> u ''intermediateDoc'' = None \<or> u ''graduationDoc'' = None"
  have "snd (submit_P rnd fd files db) = db"
  proof (cases files)
    case None
    then show ?thesis by (simp add: submit_P_def split: option.splits)
  next
    case (Some u)
    then have "u ''sscDoc'' = None \<or> u ''intermediateDoc'' = None \<or> u ''graduationDoc'' = None"
      using m by simp
    then show ?thesis using Some by (auto simp: submit_P_def split: option.splits)
  qed
  then show "fst (snd (post_applications_P rnd fd files db st)) = db"
    by (cases "submit_P rnd fd files db") (simp add: post_applications_P_def)
qed

theorem missing_document_rejected_witness:
  "find (\<lambda>field. falsy (example_form ''b@y.com'' ''2222222222'' field)) requiredFields_P = None \<and>
   [''sscDoc'' \<mapsto> example_file, ''intermediateDoc'' \<mapsto> example_file] ''graduationDoc'' = None \<and>
   fst (post_applications_P (\<lambda>_. 0) (example_form ''b@y.com'' ''2222222222'')
      (Some [''sscDoc'' \<mapsto> example_file, ''intermediateDoc'' \<mapsto> example_file])
      (example_db ''Pending'' None) Map.empty) =
     (400, [(''success'', JBool False), (''message'', JStr ''Missing required documents'')]) \<and>
   fst (snd (post_applications_P (\<lambda>_. 0) (example_form ''b@y.com'' ''2222222222'')
      (Some [''sscDoc'' \<mapsto> example_file, ''intermediateDoc'' \<mapsto> example_file])
      (example_db ''Pending'' None) Map.empty)) =
     example_db ''Pending'' None \<and>
   fst (snd (post_applications_P (\<lambda>_. 0) (example_form ''b@y.com'' ''2222222222'') None
      (example_db ''Pending'' None) Map.empty)) =
     example_db ''Pending'' None"
  using missing_document_rejected [where fd = "example_form ''b@y.com'' ''2222222222''"
      and fs = "[''sscDoc'' \<mapsto> example_file, ''intermediateDoc'' \<mapsto> example_file]"
      and files = None and rnd = "\<lambda>_. 0" and db = "example_db ''Pending'' None" and st = Map.empty]
  by (simp add: example_form_complete)

section \<open>Offer-letter retrieval\<close>

text \<open>A key that is unique in a list selects at most one element.\<close>

lemma filter_unique_key:
  assumes "distinct (map f xs)" and "r \<in> set xs" and "P r" and key: "\<And>x. P x \<Longrightarrow> f x = f r"
  shows "filter P xs = [r]"
  using assms(1,2)
proof (induction xs)
  case Nil
  then show ?case by simp
next
  case (Cons a xs)
  from Cons.prems(1) have fa: "f a \<notin> f ` set xs" and d: "distinct (map f xs)"
    by simp_all
  show ?case
  proof (cases "a = r")
    case True
    have "\<not> P x" if "x \<in> set xs" for x
    proof
      assume "P x"
      then have "f x = f a" using key True by blast
      then show False using fa that by (metis imageI)
    qed
    then have "filter P xs = []" by (simp add: filter_empty_conv)
    then show ?thesis using True \<open>P r\<close> by simp
  next
    case False
    then have rin: "r \<in> set xs" using Cons.prems(2) by simp
    have "\<not> P a"
    proof
      assume "P a"
      then have "f a = f r" using key by blast
      then show False using fa rin by (metis imageI)
    qed
    moreover have "filter P xs = [r]" using Cons.IH d rin by blast
    ultimately show ?thesis by simp
  qed
qed

lemma select_offer_letter_unique:
  assumes "distinct (map reference_id (rows db))" and "row \<in> set (rows db)"
    and "status row = ''Approved''"
  shows "select_offer_letter (reference_id row) (email row) db = ([row], log_query Select_offer_letter db)"
proof -
  have "filter (\<lambda>r. reference_id r = reference_id row \<and> email r = email row \<and> status r = ''Approved'') (rows db) = [row]"
    using assms by (intro filter_unique_key [where f = reference_id]) auto
  then show ?thesis by (simp add: select_offer_letter_def)
qed

lemma get_offer_letter_found:
  assumes "x \<noteq> []" and "y \<noteq> []"
    and "filter (\<lambda>r. reference_id r = x \<and> email r = y \<and> status r = ''Approved'') (rows db) = row # rest"
  shows "fst (get_offer_letter (Some x) (Some y) db st) =
     (case or_none (offer_letter_path row) of
        None \<Rightarrow> (404, [(''success'', JBool False), (''message'', JStr ''Offer letter not found'')])
      | Some p \<Rightarrow>
          if existsSync p st
          then (200, [(''success'', JBool True), (''data'', JRow [(''offer_letter_path'', Str p)])])
          else (404, [(''success'', JBool False), (''message'', JStr ''Offer letter file not found on server'')]))"
proof -
  have sel: "select_offer_letter (text_of (Some x)) (text_of (Some y)) db =
      (row # rest, log_query Select_offer_letter db)"
    unfolding select_offer_letter_def text_of_def using assms(3) by simp
  have nf: "\<not> (falsy (Some x) \<or> falsy (Some y))"
    using assms(1,2) by (simp add: falsy_def)
  show ?thesis
    unfolding get_offer_letter_def sel using nf
    by (cases "or_none (offer_letter_path row)") simp_all
qed

lemma get_offer_letter_absent:
  assumes "x \<noteq> []" and "y \<noteq> []"
    and "filter (\<lambda>r. reference_id r = x \<and> email r = y \<and> status r = ''Approved'') (rows db) = []"
  shows "fst (get_offer_letter (Some x) (Some y) db st) =
     (404, [(''success'', JBool False), (''message'', JStr ''Application not found or not approved'')])"
  using assms
  by (simp add: get_offer_letter_def select_offer_letter_def falsy_def text_of_def)

lemma get_offer_letter_required:
  assumes "falsy ref \<or> falsy mail"
  shows "get_offer_letter ref mail db st =
     ((400, [(''success'', JBool False), (''message'', JStr ''Reference ID and email are required'')]), db)"
  using assms by (auto simp: get_offer_letter_def)

lemma get_offer_letter_ok_only:
  assumes ok: "fst (fst (get_offer_letter ref mail db st)) = 200"
  shows "\<exists>row \<in> set (rows db). \<exists>p. ref = Some (reference_id row) \<and> mail = Some (email row) \<and>
           status row = ''Approved'' \<and> offer_letter_path row = Some p \<and> st p \<noteq> None \<and>
           snd (fst (get_offer_letter ref mail db st)) =
             [(''success'', JBool True), (''data'', JRow [(''offer_letter_path'', Str p)])]"
proof -
  have nf: "\<not> (falsy ref \<or> falsy mail)"
  proof
    assume "falsy ref \<or> falsy mail"
    then have "fst (fst (get_offer_letter ref mail db st)) = 400"
      by (simp add: get_offer_letter_required)
    then show False using ok by simp
  qed
  then obtain x y where xy: "ref = Some x" "mail = Some y" "x \<noteq> []" "y \<noteq> []"
    by (cases ref; cases mail) (auto simp: falsy_def)
  let ?m = "filter (\<lambda>r. reference_id r = x \<and> email r = y \<and> status r = ''Approved'') (rows db)"
  have "?m \<noteq> []"
  proof
    assume "?m = []"
    then have "fst (fst (get_offer_letter ref mail db st)) = 404"
      using xy by (simp add: get_offer_letter_absent)
    then show False using ok by simp
  qed
  then obtain row rest where m: "?m = row # rest" by (cases ?m) auto
  then have "row \<in> set ?m" by simp
  then have r: "row \<in> set (rows db)" "reference_id row = x" "email row = y" "status row = ''Approved''"
    by auto
  note g = get_offer_letter_found [OF xy(3) xy(4) m, of st]
  obtain p where p: "or_none (offer_letter_path row) = Some p"
    using g ok xy by (cases "or_none (offer_letter_path row)") auto
  then have p': "offer_letter_path row = Some p"
    by (auto simp: or_none_def split: option.splits if_splits)
  have e: "existsSync p st"
    using g ok xy p by (cases "existsSync p st") auto
  then have "st p \<noteq> None" by (auto simp: existsSync_def split: option.splits)
  moreover have "snd (fst (get_offer_letter ref mail db st)) =
             [(''success'', JBool True), (''data'', JRow [(''offer_letter_path'', Str p)])]"
    using g xy p e by simp
  ultimately show ?thesis using r p' xy by blast
qed

text \<open>
  C8, as stated, fails for a credential that is supplied empty: the reference id of an
  approved application with an offer letter on disk, together with an empty email, is
  a mismatch of the email, and it is answered 400, not 404.
\<close>

theorem offer_letter_retrieval_counterexample:
  "email (example_row ''Approved'' (Some ''offerLetter-1-2.pdf'')) \<noteq> [] \<and>
   get_offer_letter (Some ''AAAAAAAAAAAAAAA'') (Some [])
      (example_db ''Approved'' (Some ''offerLetter-1-2.pdf'')) [''offerLetter-1-2.pdf'' \<mapsto> ''%PDF''] =
     ((400, [(''success'', JBool False), (''message'', JStr ''Reference ID and email are required'')]),
      example_db ''Approved'' (Some ''offerLetter-1-2.pdf''))"
  by (simp add: get_offer_letter_def falsy_def example_row_def)

text \<open>
  C8, amended. Retrieval answers 200 only when the supplied pair is the reference id
  and the email of a row whose status is \<^verbatim>\<open>'Approved'\<close> and whose pointer names a file
  that exists, and then it returns that pointer. When both parameters are supplied
  and non-empty: if no row has that reference id, that email and status
  \<^verbatim>\<open>'Approved'\<close> (so for any mismatch of either one) the answer is 404
  \<^verbatim>\<open>'Application not found or not approved'\<close>; for the matching row (reference ids are
  unique) a missing pointer gives 404 \<^verbatim>\<open>'Offer letter not found'\<close>, a pointer to a
  missing file gives 404 \<^verbatim>\<open>'Offer letter file not found on server'\<close>, and a pointer to
  an existing file gives 200; the three 404 messages differ. A request in which either
  parameter is absent or empty is answered 400 before any lookup.
\<close>

theorem offer_letter_retrieval:
  "(fst (fst (get_offer_letter ref mail db st)) = 200 \<longrightarrow>
      (\<exists>row \<in> set (rows db). \<exists>p. ref = Some (reference_id row) \<and> mail = Some (email row) \<and>
         status row = ''Approved'' \<and> offer_letter_path row = Some p \<and> st p \<noteq> None \<and>
         snd (fst (get_offer_letter ref mail db st)) =
           [(''success'', JBool True), (''data'', JRow [(''offer_letter_path'', Str p)])])) \<and>
   (x \<noteq> [] \<and> y \<noteq> [] \<and>
    (\<forall>row \<in> set (rows db). reference_id row \<noteq> x \<or> email row \<noteq> y \<or> status row \<noteq> ''Approved'') \<longrightarrow>
      fst (get_offer_letter (Some x) (Some y) db st) =
        (404, [(''success'', JBool False), (''message'', JStr ''Application not found or not approved'')])) \<and>
   (distinct (map reference_id (rows db)) \<and> row \<in> set (rows db) \<and> status row = ''Approved'' \<and>
    reference_id row \<noteq> [] \<and> email row \<noteq> [] \<and> or_none (offer_letter_path row) = None \<longrightarrow>
      fst (get_offer_letter (Some (reference_id row)) (Some (email row)) db st) =
        (404, [(''success'', JBool False), (''message'', JStr ''Offer letter not found'')])) \<and>
   (distinct (map reference_id (rows db)) \<and> row \<in> set (rows db) \<and> status row = ''Approved'' \<and>
    reference_id row \<noteq> [] \<and> email row \<noteq> [] \<and> offer_letter_path row = Some p \<and> p \<noteq> [] \<and> st p = None \<longrightarrow>
      fst (get_offer_letter (Some (reference_id row)) (Some (email row)) db st) =
        (404, [(''success'', JBool False), (''message'', JStr ''Offer letter file not found on server'')])) \<and>
   (distinct (map reference_id (rows db)) \<and> row \<in> set (rows db) \<and> status row = ''Approved'' \<and>
    reference_id row \<noteq> [] \<and> email row \<noteq> [] \<and> offer_letter_path row = Some p \<and> p \<noteq> [] \<and> st p \<noteq> None \<longrightarrow>
      fst (get_offer_letter (Some (reference_id row)) (Some (email row)) db st) =
        (200, [(''success'', JBool True), (''data'', JRow [(''offer_letter_path'', Str p)])])) \<and>
   (falsy ref \<or> falsy mail \<longrightarrow>
      get_offer_letter ref mail db st =
        ((400, [(''success'', JBool False), (''message'', JStr ''Reference ID and email are required'')]), db)) \<and>
   ''Application not found or not approved'' \<noteq> ''Offer letter not found'' \<and>
   ''Application not found or not approved'' \<noteq> ''Offer letter file not found on server'' \<and>
   ''Offer letter not found'' \<noteq> ''Offer letter file not found on server''"
proof (intro conjI impI)
  assume "fst (fst (get_offer_letter ref mail db st)) = 200"
  then show "\<exists>row \<in> set (rows db). \<exists>p. ref = Some (reference_id row) \<and> mail = Some (email row) \<and>
         status row = ''Approved'' \<and> offer_letter_path row = Some p \<and> st p \<noteq> None \<and>
         snd (fst (get_offer_letter ref mail db st)) =
           [(''success'', JBool True), (''data'', JRow [(''offer_letter_path'', Str p)])]"
    by (rule get_offer_letter_ok_only)
next
  assume a: "x \<noteq> [] \<and> y \<noteq> [] \<and>
    (\<forall>row \<in> set (rows db). reference_id row \<noteq> x \<or> email row \<noteq> y \<or> status row \<noteq> ''Approved'')"
  then have "filter (\<lambda>r. reference_id r = x \<and> email r = y \<and> status r = ''Approved'') (rows db) = []"
    by (auto simp: filter_empty_conv)
  then show "fst (get_offer_letter (Some x) (Some y) db st) =
        (404, [(''success'', JBool False), (''message'', JStr ''Application not found or not approved'')])"
    using a by (simp add: get_offer_letter_def select_offer_letter_def falsy_def text_of_def)
next
  assume a: "distinct (map reference_id (rows db)) \<and> row \<in> set (rows db) \<and> status row = ''Approved'' \<and>
    reference_id row \<noteq> [] \<and> email row \<noteq> [] \<and> or_none (offer_letter_path row) = None"
  then show "fst (get_offer_letter (Some (reference_id row)) (Some (email row)) db st) =
        (404, [(''success'', JBool False), (''message'', JStr ''Offer letter not found'')])"
    by (simp add: get_offer_letter_def select_offer_letter_unique falsy_def text_of_def)
next
  assume a: "distinct (map reference_id (rows db)) \<and> row \<in> set (rows db) \<and> status row = ''Approved'' \<and>
    reference_id row \<noteq> [] \<and> email row \<noteq> [] \<and> offer_letter_path row = Some p \<and> p \<noteq> [] \<and> st p = None"
  then show "fst (get_offer_letter (Some (reference_id row)) (Some (email row)) db st) =
        (404, [(''success'', JBool False), (''message'', JStr ''Offer letter file not found on server'')])"
    by (simp add: get_offer_letter_def select_offer_letter_unique falsy_def text_of_def or_none_def
        existsSync_def)
next
  assume a: "distinct (map reference_id (rows db)) \<and> row \<in> set (rows db) \<and> status row = ''Approved'' \<and>
    reference_id row \<noteq> [] \<and> email row \<noteq> [] \<and> offer_letter_path row = Some p \<and> p \<noteq> [] \<and> st p \<noteq> None"
  then show "fst (get_offer_letter (Some (reference_id row)) (Some (email row)) db st) =
        (200, [(''success'', JBool True), (''data'', JRow [(''offer_letter_path'', Str p)])])"
    by (auto simp: get_offer_letter_def select_offer_letter_unique falsy_def text_of_def or_none_def
        existsSync_def)
next
  assume "falsy ref \<or> falsy mail"
  then show "get_offer_letter ref mail db st =
        ((400, [(''success'', JBool False), (''message'', JStr ''Reference ID and email are required'')]), db)"
    by (rule get_offer_letter_required)
qed simp_all

theorem offer_letter_retrieval_witness:
  "distinct (map reference_id (rows (example_db ''Approved'' (Some ''offerLetter-1-2.pdf'')))) \<and>
   example_row ''Approved'' (Some ''offerLetter-1-2.pdf'') \<in> set (rows (example_db ''Approved'' (Some ''offerLetter-1-2.pdf''))) \<and>
   fst (get_offer_letter (Some ''AAAAAAAAAAAAAAA'') (Some ''a@x.com'')
         (example_db ''Approved'' (Some ''offerLetter-1-2.pdf'')) [''offerLetter-1-2.pdf'' \<mapsto> ''%PDF'']) =
     (200, [(''success'', JBool True), (''data'', JRow [(''offer_letter_path'', Str ''offerLetter-1-2.pdf'')])]) \<and>
   fst (get_offer_letter (Some ''AAAAAAAAAAAAAAA'') (Some ''b@y.com'')
         (example_db ''Approved'' (Some ''offerLetter-1-2.pdf'')) [''offerLetter-1-2.pdf'' \<mapsto> ''%PDF'']) =
     (404, [(''success'', JBool False), (''message'', JStr ''Application not found or not approved'')]) \<and>
   fst (get_offer_letter (Some ''AAAAAAAAAAAAAAA'') (Some ''a@x.com'')
         (example_db ''Pending'' None) [''offerLetter-1-2.pdf'' \<mapsto> ''%PDF'']) =
     (404, [(''success'', JBool False), (''message'', JStr ''Application not found or not approved'')]) \<and>
   fst (get_offer_letter (Some ''AAAAAAAAAAAAAAA'') (Some ''a@x.com'')
         (example_db ''Approved'' None) [''offerLetter-1-2.pdf'' \<mapsto> ''%PDF'']) =
     (404, [(''success'', JBool False), (''message'', JStr ''Offer letter not found'')]) \<and>
   fst (get_offer_letter (Some ''AAAAAAAAAAAAAAA'') (Some ''a@x.com'')
         (example_db ''Approved'' (Some ''offerLetter-1-2.pdf'')) Map.empty) =
     (404, [(''success'', JBool False), (''message'', JStr ''Offer letter file not found on server'')]) \<and>
   fst (fst (get_offer_letter None (Some ''a@x.com'')
         (example_db ''Approved'' (Some ''offerLetter-1-2.pdf'')) [''offerLetter-1-2.pdf'' \<mapsto> ''%PDF''])) = 400"
proof -
  let ?ok = "example_db ''Approved'' (Some ''offerLetter-1-2.pdf'')"
  let ?row = "example_row ''Approved'' (Some ''offerLetter-1-2.pdf'')"
  let ?st = "[''offerLetter-1-2.pdf'' \<mapsto> ''%PDF'']"
  have d: "distinct (map reference_id (rows ?ok))" "?row \<in> set (rows ?ok)"
    by (simp_all add: example_db_def)
  have found: "fst (get_offer_letter (Some ''AAAAAAAAAAAAAAA'') (Some ''a@x.com'') ?ok ?st) =
     (200, [(''success'', JBool True), (''data'', JRow [(''offer_letter_path'', Str ''offerLetter-1-2.pdf'')])])"
    using offer_letter_retrieval [where db = ?ok and row = ?row and p = "''offerLetter-1-2.pdf''"
        and st = ?st and x = "''AAAAAAAAAAAAAAA''" and y = "''b@y.com''" and ref = None and mail = None]
    by (simp add: example_db_def example_row_def)
  have mismatch: "fst (get_offer_letter (Some ''AAAAAAAAAAAAAAA'') (Some ''b@y.com'') ?ok ?st) =
     (404, [(''success'', JBool False), (''message'', JStr ''Application not found or not approved'')])"
    using offer_letter_retrieval [where db = ?ok and row = ?row and p = "''offerLetter-1-2.pdf''"
        and st = ?st and x = "''AAAAAAAAAAAAAAA''" and y = "''b@y.com''" and ref = None and mail = None]
    by (simp add: example_db_def example_row_def)
  have pending: "fst (get_offer_letter (Some ''AAAAAAAAAAAAAAA'') (Some ''a@x.com'') (example_db ''Pending'' None) ?st) =
     (404, [(''success'', JBool False), (''message'', JStr ''Application not found or not approved'')])"
    using offer_letter_retrieval [where db = "example_db ''Pending'' None" and row = "example_row ''Pending'' None"
        and p = "''offerLetter-1-2.pdf''" and st = ?st and x = "''AAAAAAAAAAAAAAA''" and y = "''a@x.com''"
        and ref = None and mail = None]
    by (simp add: example_db_def example_row_def)
  have pointer: "fst (get_offer_letter (Some ''AAAAAAAAAAAAAAA'') (Some ''a@x.com'') (example_db ''Approved'' None) ?st) =
     (404, [(''success'', JBool False), (''message'', JStr ''Offer letter not found'')])"
    using offer_letter_retrieval [where db = "example_db ''Approved'' None" and row = "example_row ''Approved'' None"
        and p = "''offerLetter-1-2.pdf''" and st = ?st and x = "''AAAAAAAAAAAAAAA''" and y = "''b@y.com''"
        and ref = None and mail = None]
    by (simp add: example_db_def example_row_def or_none_def)
  have nofile: "fst (get_offer_letter (Some ''AAAAAAAAAAAAAAA'') (Some ''a@x.com'') ?ok Map.empty) =
     (404, [(''success'', JBool False), (''message'', JStr ''Offer letter file not found on server'')])"
    using offer_letter_retrieval [where db = ?ok and row = ?row and p = "''offerLetter-1-2.pdf''"
        and st = Map.empty and x = "''AAAAAAAAAAAAAAA''" and y = "''b@y.com''" and ref = None and mail = None]
    by (simp add: example_db_def example_row_def)
  have required: "fst (fst (get_offer_letter None (Some ''a@x.com'') ?ok ?st)) = 400"
    using offer_letter_retrieval [where db = ?ok and row = ?row and p = "''offerLetter-1-2.pdf''"
        and st = ?st and x = "''AAAAAAAAAAAAAAA''" and y = "''b@y.com''" and ref = None and mail = "Some ''a@x.com''"]
    by (simp add: falsy_def)
  show ?thesis
    using d found mismatch pending pointer nofile required by simp
qed

section \<open>Offer-letter issuance\<close>

lemma stage_single:
  "stage [''offerLetter''] [''offerLetter'' \<mapsto> f] st = st(stored_name ''offerLetter'' f \<mapsto> contents f)"
  by (simp add: stage_def write_upload_def)

lemma rows_log_query: "rows (log_query q db) = rows db"
  by (simp add: log_query_def)

lemma unlink_staged:
  "unlinkSync n (st(n \<mapsto> c)) = Inr (st(n := None))"
  by (simp add: unlinkSync_def existsSync_def)

text \<open>
  The standalone server checks the application before it stores the pointer. With an
  upload and an id in range, it answers 404 for an unknown id and 400 for an
  application that is not approved, each time after deleting the upload and without
  changing a row; for an approved application it answers 200, stores the pointer and
  deletes the file the old pointer names. So it answers 200 exactly for an existing,
  approved application.
\<close>

lemma offer_letter_P_unknown:
  assumes "in_int4 i" and "filter (\<lambda>r. app_id r = i) (rows db) = []"
  shows "post_offer_letter_P (Some i) (Some f) db st =
     (Some (404, [(''success'', JBool False), (''message'', JStr ''Application not found'')]),
      log_query Select_by_id db, st(stored_name ''offerLetter'' f := None))"
  using assms
  by (simp add: post_offer_letter_P_def offer_letter_P_def offer_letter_try_P_def stage_single
      select_by_id_def unlink_staged)

lemma offer_letter_P_not_approved:
  assumes "in_int4 i" and "filter (\<lambda>r. app_id r = i) (rows db) = row # rest"
    and "status row \<noteq> ''Approved''"
  shows "post_offer_letter_P (Some i) (Some f) db st =
     (Some (400, [(''success'', JBool False),
                  (''message'', JStr ''Application must be approved to upload an offer letter'')]),
      log_query Select_by_id db, st(stored_name ''offerLetter'' f := None))"
  using assms
  by (simp add: post_offer_letter_P_def offer_letter_P_def offer_letter_try_P_def stage_single
      select_by_id_def unlink_staged)

lemma offer_letter_P_approved:
  assumes "in_int4 i" and "filter (\<lambda>r. app_id r = i) (rows db) = row # rest"
    and "status row = ''Approved''"
  shows "fst (post_offer_letter_P (Some i) (Some f) db st) =
     Some (200, [(''success'', JBool True),
                 (''data'', JRow [(''id'', Num i),
                                  (''offer_letter_path'', Str (stored_name ''offerLetter'' f))])])"
    and "rows (fst (snd (post_offer_letter_P (Some i) (Some f) db st))) =
           map (\<lambda>r. if app_id r = i then r\<lparr>offer_letter_path := Some (stored_name ''offerLetter'' f)\<rparr> else r) (rows db)"
    and "snd (snd (post_offer_letter_P (Some i) (Some f) db st)) =
           (case or_none (offer_letter_path row) of
              None \<Rightarrow> st(stored_name ''offerLetter'' f \<mapsto> contents f)
            | Some old \<Rightarrow> (st(stored_name ''offerLetter'' f \<mapsto> contents f))(old := None))"
proof -
  have "row \<in> set (filter (\<lambda>r. app_id r = i) (rows db))" using assms(2) by simp
  then have rid: "app_id row = i" by simp
  have sel: "select_by_id i db = (Inr (row # rest), log_query Select_by_id db)"
    using assms(1,2) by (simp add: select_by_id_def)
  have upd: "update_offer_letter (stored_name ''offerLetter'' f) i (log_query Select_by_id db) =
      (Inr (row\<lparr>offer_letter_path := Some (stored_name ''offerLetter'' f)\<rparr> #
            map (\<lambda>r. r\<lparr>offer_letter_path := Some (stored_name ''offerLetter'' f)\<rparr>) rest),
       log_query Update_offer_letter
         ((log_query Select_by_id db)\<lparr>rows := map (\<lambda>r. if app_id r = i
             then r\<lparr>offer_letter_path := Some (stored_name ''offerLetter'' f)\<rparr> else r) (rows db)\<rparr>))"
    using assms(1,2) by (simp add: update_offer_letter_def log_query_def)
  have del: "(if existsSync old s then s(old := None) else s) = s(old := None)" for old and s :: store
    by (auto simp: existsSync_def split: option.splits)
  show "fst (post_offer_letter_P (Some i) (Some f) db st) =
     Some (200, [(''success'', JBool True),
                 (''data'', JRow [(''id'', Num i),
                                  (''offer_letter_path'', Str (stored_name ''offerLetter'' f))])])"
    using assms(3) rid
    by (simp add: post_offer_letter_P_def offer_letter_P_def offer_letter_try_P_def stage_single
        sel upd Let_def of_opt_def)
  show "rows (fst (snd (post_offer_letter_P (Some i) (Some f) db st))) =
           map (\<lambda>r. if app_id r = i then r\<lparr>offer_letter_path := Some (stored_name ''offerLetter'' f)\<rparr> else r) (rows db)"
    using assms(3)
    by (simp add: post_offer_letter_P_def offer_letter_P_def offer_letter_try_P_def stage_single
        sel upd Let_def rows_log_query)
  show "snd (snd (post_offer_letter_P (Some i) (Some f) db st)) =
           (case or_none (offer_letter_path row) of
              None \<Rightarrow> st(stored_name ''offerLetter'' f \<mapsto> contents f)
            | Some old \<Rightarrow> (st(stored_name ''offerLetter'' f \<mapsto> contents f))(old := None))"
    using assms(3)
    by (simp add: post_offer_letter_P_def offer_letter_P_def offer_letter_try_P_def stage_single
        sel upd Let_def del split: option.splits)
qed

lemma offer_letter_P_success_iff:
  assumes "in_int4 i"
  shows "(\<exists>body. fst (post_offer_letter_P (Some i) (Some f) db st) = Some (200, body)) \<longleftrightarrow>
         (\<exists>row rest. filter (\<lambda>r. app_id r = i) (rows db) = row # rest \<and> status row = ''Approved'')"
proof (cases "filter (\<lambda>r. app_id r = i) (rows db)")
  case Nil
  then show ?thesis using offer_letter_P_unknown [OF assms Nil, of f st] by simp
next
  case (Cons row rest)
  show ?thesis
  proof (cases "status row = ''Approved''")
    case True
    then show ?thesis using offer_letter_P_approved(1) [OF assms Cons True, of f st] Cons by simp
  next
    case False
    then show ?thesis using offer_letter_P_not_approved [OF assms Cons False, of f st] Cons by simp
  qed
qed

text \<open>
  Backend/server.js stores the pointer in whatever row has the id: for an existing
  application in any status it answers 200, keeps the upload and deletes nothing.
\<close>

lemma offer_letter_S_ignores_status:
  assumes "in_int4 i" and "filter (\<lambda>r. app_id r = i) (rows db) = row # rest"
  shows "post_offer_letter_S (Some i) (Some f) db st =
     (Some (200, [(''success'', JBool True), (''message'', JStr ''Offer letter uploaded successfully''),
                  (''filePath'', JStr (''/Uploads/'' @ stored_name ''offerLetter'' f))]),
      log_query Update_offer_letter
        (db\<lparr>rows := map (\<lambda>r. if app_id r = i
            then r\<lparr>offer_letter_path := Some (stored_name ''offerLetter'' f)\<rparr> else r) (rows db)\<rparr>),
      st(stored_name ''offerLetter'' f \<mapsto> contents f))"
  using assms
  by (simp add: post_offer_letter_S_def offer_letter_S_def offer_letter_try_S_def stage_single
      update_offer_letter_S_def update_offer_letter_def)

text \<open>
  C1. Issuing an offer letter must fail with 400 for an application that is not
  approved, delete the upload and change no file and no row. Backend/server.js has no
  such check: for a pending application it answers 200, stores the pointer in the
  row, and keeps the uploaded file.
\<close>

theorem offer_letter_on_pending_accepted:
  "post_offer_letter_S (Some 1) (Some example_file) (example_db ''Pending'' None) Map.empty =
     (Some (200, [(''success'', JBool True), (''message'', JStr ''Offer letter uploaded successfully''),
                  (''filePath'', JStr ''/Uploads/offerLetter-1-2.pdf'')]),
      \<lparr>rows = [example_row ''Pending'' (Some ''offerLetter-1-2.pdf'')], next_id = 2,
        qlog = [Update_offer_letter]\<rparr>,
      [''offerLetter-1-2.pdf'' \<mapsto> ''%PDF''])"
  by (simp add: post_offer_letter_S_def offer_letter_S_def offer_letter_try_S_def stage_single
      update_offer_letter_S_def update_offer_letter_def in_int4_def log_query_def
      example_db_def example_row_def stored_name_def example_file_def)

text \<open>
  When the standalone server issues again for an approved application, the file the
  old pointer names is gone afterwards, the new file is there, and no other file has
  changed.
\<close>

lemma offer_letter_P_replaces:
  assumes "in_int4 i" and "filter (\<lambda>r. app_id r = i) (rows db) = row # rest"
    and "status row = ''Approved''" and "offer_letter_path row = Some old" and "old \<noteq> []"
    and "old \<noteq> stored_name ''offerLetter'' f"
  shows "snd (snd (post_offer_letter_P (Some i) (Some f) db st)) old = None"
    and "snd (snd (post_offer_letter_P (Some i) (Some f) db st)) (stored_name ''offerLetter'' f) = Some (contents f)"
    and "\<forall>n. n \<noteq> old \<and> n \<noteq> stored_name ''offerLetter'' f \<longrightarrow>
           snd (snd (post_offer_letter_P (Some i) (Some f) db st)) n = st n"
  using offer_letter_P_approved(3) [OF assms(1-3), of f st] assms(4-6)
  by (simp_all add: or_none_def)

text \<open>
  C7. Issuing again for an approved application must delete the file stored before.
  Backend/server.js overwrites the pointer and deletes nothing: after the second
  issue the upload directory holds the old file and the new one.
\<close>

theorem reissue_keeps_old_file:
  "post_offer_letter_S (Some 1) (Some example_file)
      (example_db ''Approved'' (Some ''offerLetter-0-1.pdf'')) [''offerLetter-0-1.pdf'' \<mapsto> ''old''] =
     (Some (200, [(''success'', JBool True), (''message'', JStr ''Offer letter uploaded successfully''),
                  (''filePath'', JStr ''/Uploads/offerLetter-1-2.pdf'')]),
      \<lparr>rows = [example_row ''Approved'' (Some ''offerLetter-1-2.pdf'')], next_id = 2,
        qlog = [Update_offer_letter]\<rparr>,
      [''offerLetter-0-1.pdf'' \<mapsto> ''old'', ''offerLetter-1-2.pdf'' \<mapsto> ''%PDF''])"
  by (simp add: post_offer_letter_S_def offer_letter_S_def offer_letter_try_S_def stage_single
      update_offer_letter_S_def update_offer_letter_def in_int4_def log_query_def
      example_db_def example_row_def stored_name_def example_file_def)

section \<open>Failed submissions\<close>

lemma generateReferenceId_digit: "generateReferenceId (\<lambda>_. 26) = ''000000000000000''"
  by code_simp

lemma example_files_documents:
  "example_files ''sscDoc'' = Some example_file"
  "example_files ''intermediateDoc'' = Some example_file"
  "example_files ''graduationDoc'' = Some example_file"
  by (simp_all add: example_files_def)

lemma stage_example_files:
  "stage upload_fields_P example_files Map.empty =
     [''sscDoc-1-2.pdf'' \<mapsto> ''%PDF'', ''intermediateDoc-1-2.pdf'' \<mapsto> ''%PDF'',
      ''graduationDoc-1-2.pdf'' \<mapsto> ''%PDF'']"
  by (simp add: stage_def upload_fields_P_def example_files_def write_upload_def stored_name_def
      example_file_def)

text \<open>
  Both offer-letter handlers delete the upload when a statement raises (their
  \<^verbatim>\<open>catch\<close> blocks): the upload directory is as before, but for the uploaded name.
\<close>

lemma offer_letter_P_error_cleans_up:
  assumes "\<not> in_int4 i"
  shows "post_offer_letter_P (Some i) (Some f) db st =
     (Some (500, [(''success'', JBool False), (''message'', JStr ''Failed to upload offer letter'')]),
      log_query Select_by_id db, st(stored_name ''offerLetter'' f := None))"
  using assms
  by (simp add: post_offer_letter_P_def offer_letter_P_def offer_letter_try_P_def stage_single
      select_by_id_def unlink_staged)

lemma offer_letter_S_error_cleans_up:
  "post_offer_letter_S None (Some f) db st =
     (Some (500, [(''success'', JBool False), (''error'', JStr ''Failed to upload offer letter'')]),
      log_query Update_offer_letter db, st(stored_name ''offerLetter'' f := None))"
  by (simp add: post_offer_letter_S_def offer_letter_S_def offer_letter_try_S_def stage_single
      update_offer_letter_S_def unlink_staged)

text \<open>
  The submission routes never delete: whatever the handler answers, the upload
  directory afterwards is the one multer left.
\<close>

lemma post_applications_store:
  "snd (snd (post_applications_P rnd fd files db st)) = stage_request upload_fields_P files st"
  "snd (snd (post_applications_S now r fd files db st)) = stage_request upload_fields_S files st"
  by (simp_all add: post_applications_P_def post_applications_S_def split: prod.splits)

text \<open>
  C2. A submission whose insert fails on a duplicate email must leave the upload
  directory as it was. The \<^verbatim>\<open>catch\<close> block of the submission handler deletes nothing:
  the standalone server answers 500 \<^verbatim>\<open>'Email already exists'\<close>, inserts no row, and
  the three documents multer wrote stay in the directory, which was empty before.
\<close>

theorem duplicate_email_leaves_documents:
  "post_applications_P (\<lambda>_. 26) (example_form ''a@x.com'' ''2222222222'') (Some example_files)
      (example_db ''Pending'' None) Map.empty =
     ((500, [(''success'', JBool False), (''message'', JStr ''Email already exists'')]),
      \<lparr>rows = [example_row ''Pending'' None], next_id = 3, qlog = [Insert_application]\<rparr>,
      [''sscDoc-1-2.pdf'' \<mapsto> ''%PDF'', ''intermediateDoc-1-2.pdf'' \<mapsto> ''%PDF'',
       ''graduationDoc-1-2.pdf'' \<mapsto> ''%PDF''])"
proof -
  have mail: "email (values_P ''000000000000000'' (example_form ''a@x.com'' ''2222222222'') example_files) = ''a@x.com''"
    by (simp add: values_P_def example_form_def text_of_def)
  have ref: "reference_id (values_P ''000000000000000'' (example_form ''a@x.com'' ''2222222222'') example_files) = ''000000000000000''"
    by (simp add: values_P_def)
  have ins: "insert_P (values_P ''000000000000000'' (example_form ''a@x.com'' ''2222222222'') example_files)
        (example_db ''Pending'' None) =
      (Inl (Unique_violation ''job_applications_email_key''),
       \<lparr>rows = [example_row ''Pending'' None], next_id = 3, qlog = [Insert_application]\<rparr>)"
    unfolding insert_P_def Let_def mail ref
    by (simp add: example_db_def example_row_def log_query_def)
  show ?thesis
    by (simp add: post_applications_P_def submit_P_def example_form_complete example_files_documents
        generateReferenceId_digit ins submit_error_message_def stage_request_simps stage_example_files)
qed

text \<open>
  Backend/server.js collects every required field that is missing and lists them all
  in the \<^verbatim>\<open>missing\<close> member of its 400 answer, without touching the database.
\<close>

lemma submit_S_lists_missing:
  assumes "filter (\<lambda>field. falsy (body field)) requiredFields_S \<noteq> []"
  shows "submit_S now r body files db =
     ((400, [(''success'', JBool False), (''error'', JStr ''Missing required fields''),
             (''missing'', JStrs (filter (\<lambda>field. falsy (body field)) requiredFields_S))]), db)"
  using assms by (simp add: submit_S_def Let_def)

lemma submit_S_lists_missing_example:
  "submit_S now r ((example_form [] ''2222222222'')(''full_name'' := None)) (Some example_files)
      (example_db ''Pending'' None) =
     ((400, [(''success'', JBool False), (''error'', JStr ''Missing required fields''),
             (''missing'', JStrs [''full_name'', ''email''])]),
      example_db ''Pending'' None)"
  by (simp add: submit_S_def requiredFields_S_def falsy_def example_form_def Let_def)

text \<open>
  C5. A submission that lacks several required fields must be answered with all of
  them. The standalone server returns from its loop at the first one: with the full
  name absent and the email empty, its answer names \<^verbatim>\<open>full_name\<close> only.
\<close>

theorem first_missing_field_only:
  "submit_P (\<lambda>_. 0) ((example_form [] ''2222222222'')(''full_name'' := None)) (Some example_files)
      (example_db ''Pending'' None) =
     ((400, [(''success'', JBool False), (''message'', JStr ''Missing field: full_name'')]),
      example_db ''Pending'' None)"
  by (simp add: submit_P_def requiredFields_P_def falsy_def)

end
